theory Spec2Isabelle
  imports Main
begin

section \<open>Strings and the Domain Namer (package utils)\<close>

text \<open>
  A Go string is a sequence of bytes, here a \<^typ>\<open>string\<close>. The functions of package
  \<open>strings\<close> and the two regular expressions that \<open>Slugify\<close> uses are written out as
  functions on byte lists.

  \<open>strings.ToLower\<close> has two paths. On a string of ASCII bytes only it adds 32 to every byte
  in \<open>'A'..'Z'\<close>. On any other string it maps every rune through the Unicode case tables;
  these tables are not part of the repository, so that path is the parameter \<open>U\<close> of
  every function below, and every theorem holds for all \<open>U\<close>.
\<close>

definition is_upper_ascii :: "char \<Rightarrow> bool" where
  "is_upper_ascii c = (65 \<le> (of_char c :: nat) \<and> (of_char c :: nat) \<le> 90)"

definition ascii_lower :: "char \<Rightarrow> char" where
  "ascii_lower c = (if is_upper_ascii c then char_of ((of_char c :: nat) + 32) else c)"

definition is_ascii :: "string \<Rightarrow> bool" where
  "is_ascii s = list_all (\<lambda>c. (of_char c :: nat) < 128) s"

definition strings_ToLower :: "(string \<Rightarrow> string) \<Rightarrow> string \<Rightarrow> string" where
  "strings_ToLower U s = (if is_ascii s then map ascii_lower s else U s)"

text \<open>\<open>strings.ReplaceAll(s, old, new)\<close> for a one-byte \<open>old\<close>.\<close>

definition strings_ReplaceAll :: "string \<Rightarrow> char \<Rightarrow> string \<Rightarrow> string" where
  "strings_ReplaceAll s old new = concat (map (\<lambda>c. if c = old then new else [c]) s)"

text \<open>\<open>strings.Trim(s, cutset)\<close>: drops the leading and the trailing bytes that are in \<open>cutset\<close>.\<close>

definition strings_Trim :: "string \<Rightarrow> string \<Rightarrow> string" where
  "strings_Trim s cutset =
     rev (dropWhile (\<lambda>c. c \<in> set cutset) (rev (dropWhile (\<lambda>c. c \<in> set cutset) s)))"

text \<open>
  The class \<open>[a-z0-9-]\<close>. The expression \<open>[^a-z0-9-]+\<close> replaced by the empty string
  removes every rune outside the class; a rune outside ASCII consists of bytes that are all
  at least 128, none of them in the class, so the removal is a filter on bytes.
\<close>

definition slug_char :: "char \<Rightarrow> bool" where
  "slug_char c =
     ((97 \<le> (of_char c :: nat) \<and> (of_char c :: nat) \<le> 122)
      \<or> (48 \<le> (of_char c :: nat) \<and> (of_char c :: nat) \<le> 57)
      \<or> c = CHR ''-'')"

text \<open>The expression \<open>-+\<close> replaced by \<open>-\<close>: every run of hyphens becomes one hyphen.\<close>

fun collapse_hyphens :: "string \<Rightarrow> string" where
  "collapse_hyphens [] = []"
| "collapse_hyphens [c] = [c]"
| "collapse_hyphens (c # d # cs) =
     (if c = CHR ''-'' \<and> d = CHR ''-'' then collapse_hyphens (d # cs)
      else c # collapse_hyphens (d # cs))"

definition Slugify :: "(string \<Rightarrow> string) \<Rightarrow> string \<Rightarrow> string" where
  "Slugify U text =
     (let slug = strings_ToLower U text;
          slug = strings_ReplaceAll slug CHR '' '' ''-'';
          slug = filter slug_char slug;
          slug = collapse_hyphens slug;
          slug = strings_Trim slug ''-''
      in slug)"

definition GenerateProductionDomain :: "(string \<Rightarrow> string) \<Rightarrow> string \<Rightarrow> string \<Rightarrow> string" where
  "GenerateProductionDomain U appName appID =
     (let slug = Slugify U appName;
          slug = (if slug = [] then ''app'' else slug);
          cleanID = strings_ReplaceAll appID CHR ''-'' [];
          idLength = length cleanID;
          suffix = (if idLength \<ge> 6 then drop (idLength - 6) cleanID else cleanID);
          domain = slug @ ''-'' @ suffix @ ''.rapidbuild.app''
      in domain)"

subsection \<open>The Domain Namer as the specification words it\<close>

text \<open>
  The specification's algorithm, step by step: lower-case the name; replace whitespace runs
  with single hyphens; strip every character outside \<open>[a-z0-9-]\<close>; collapse repeated
  hyphens; trim leading and trailing hyphens; substitute \<open>app\<close> for an empty result; strip
  the hyphens of the identifier and take its last 6 characters, or all of it if it has
  fewer; concatenate slug, hyphen, suffix, dot and platform domain.

  \<open>replace_runs sep\<close> replaces every maximal run of separator characters by one hyphen. The
  specification's separators are the whitespace characters.
\<close>

definition is_whitespace :: "char \<Rightarrow> bool" where
  "is_whitespace c =
     (c = CHR '' '' \<or> c = CHR 0x09 \<or> c = CHR 0x0A \<or> c = CHR 0x0B \<or> c = CHR 0x0C \<or> c = CHR 0x0D)"

definition is_space :: "char \<Rightarrow> bool" where
  "is_space c = (c = CHR '' '')"

function replace_runs :: "(char \<Rightarrow> bool) \<Rightarrow> string \<Rightarrow> string" where
  "replace_runs sep [] = []"
| "replace_runs sep (c # cs) =
     (if sep c then CHR ''-'' # replace_runs sep (dropWhile sep cs)
      else c # replace_runs sep cs)"
  by pat_completeness auto
termination
  by (relation "measure (\<lambda>(sep, s). length s)") (auto simp: length_dropWhile_le less_Suc_eq_le)

definition last_chars :: "nat \<Rightarrow> string \<Rightarrow> string" where
  "last_chars n s = rev (take n (rev s))"

definition spec_namer :: "(char \<Rightarrow> bool) \<Rightarrow> (string \<Rightarrow> string) \<Rightarrow> string \<Rightarrow> string \<Rightarrow> string" where
  "spec_namer sep U name ident =
     (let lowered = strings_ToLower U name;
          hyphenated = replace_runs sep lowered;
          stripped = filter slug_char hyphenated;
          trimmed = strings_Trim (collapse_hyphens stripped) ''-'';
          slug = (if trimmed = [] then ''app'' else trimmed);
          suffix = last_chars 6 (filter (\<lambda>c. c \<noteq> CHR ''-'') ident)
      in slug @ ''-'' @ suffix @ ''.'' @ ''rapidbuild.app'')"

definition domain_namer_spec :: "(string \<Rightarrow> string) \<Rightarrow> string \<Rightarrow> string \<Rightarrow> string" where
  "domain_namer_spec = spec_namer is_whitespace"

definition domain_namer_amended :: "(string \<Rightarrow> string) \<Rightarrow> string \<Rightarrow> string \<Rightarrow> string" where
  "domain_namer_amended = spec_namer is_space"

text \<open>A hostname character: lowercase letter, digit, hyphen or dot.\<close>

definition hostname_char :: "char \<Rightarrow> bool" where
  "hostname_char c = (slug_char c \<or> c = CHR ''.'')"

section \<open>Errors\<close>

text \<open>
  A Go \<open>error\<close> value. \<open>ErrorNew msg\<close> is an error made with a message only
  (\<open>fmt.Errorf\<close> without \<open>%w\<close>); \<open>ErrorWrap prefix err\<close> is \<open>fmt.Errorf(prefix + "%w", err)\<close>,
  which keeps \<open>err\<close> as its cause. \<open>err_text\<close> is the method \<open>Error()\<close>.
\<close>

datatype error = ErrorNew string | ErrorWrap string error

fun err_text :: "error \<Rightarrow> string" where
  "err_text (ErrorNew msg) = msg"
| "err_text (ErrorWrap prefix err) = prefix @ err_text err"

text \<open>The store driver's error of a \<open>QueryRow(...).Scan\<close> that finds no row.\<close>

definition ErrNoRows :: error where
  "ErrNoRows = ErrorNew ''no rows in result set''"

text \<open>The store's rejection of an \<open>UPDATE\<close> whose \<open>SET\<close> list names a column twice.\<close>

definition ErrMultipleAssignments :: error where
  "ErrMultipleAssignments = ErrorNew ''multiple assignments to same column''"

text \<open>The format \<open>'%s'\<close>.\<close>

definition quoted :: "string \<Rightarrow> string" where
  "quoted s = [CHR 0x27] @ s @ [CHR 0x27]"

text \<open>The format \<open>%d\<close> of a non-negative number.\<close>

fun decimal :: "nat \<Rightarrow> string" where
  "decimal n =
     (if n < 10 then [char_of (48 + n)] else decimal (n div 10) @ [char_of (48 + n mod 10)])"

declare decimal.simps [simp del]

fun strings_Contains :: "string \<Rightarrow> string \<Rightarrow> bool" where
  "strings_Contains [] substr = (substr = [])"
| "strings_Contains (c # cs) substr =
     (take (length substr) (c # cs) = substr \<or> strings_Contains cs substr)"

section \<open>Rows and the relational store\<close>

text \<open>
  Modelled from the spec: the declarations of \<open>models.Version\<close> and \<open>models.App\<close> (package
  \<open>internal/models\<close> is not among the sources). The fields are the ones the services scan
  from and write to the columns of \<open>versions\<close> and \<open>apps\<close>; a nullable column is an
  \<open>option\<close>, as the services treat it (\<open>*string\<close>, \<open>*int\<close>). A field keeps its Go name
  behind the prefix \<open>v_\<close> or \<open>a_\<close>. Times are numbers.
\<close>

record Version =
  v_ID :: string
  v_AppID :: string
  v_VersionNumber :: int
  v_Status :: string
  v_S3CodePath :: "string option"
  v_VercelURL :: "string option"
  v_VercelDeployID :: "string option"
  v_BuildLog :: "string option"
  v_ErrorMessage :: "string option"
  v_CreatedAt :: nat

record App =
  a_ID :: string
  a_UserID :: string
  a_Name :: string
  a_DisplayName :: "string option"
  a_Description :: string
  a_Category :: "string option"
  a_ColorScheme :: "string option"
  a_Logo :: "string option"
  a_Status :: string
  a_ProdVersion :: "int option"
  a_ProductionURL :: "string option"
  a_VercelProjectID :: "string option"
  a_CreatedAt :: nat
  a_UpdatedAt :: nat

text \<open>
  Modelled from the spec: the relational store behind \<open>db.PostgresClient\<close> (package
  \<open>internal/db\<close> and the schema are not among the sources). A table is the list of its rows
  in insertion order. The schema's constraints are unknown, so none is built in: every call
  on the store first takes the next entry of \<open>faults\<close>, and an entry \<open>Some err\<close> makes that
  call fail with \<open>err\<close> and change nothing (a lost connection, a violated constraint). An
  empty schedule is a store that executes every statement.
\<close>

record store =
  apps :: "App list"
  versions :: "Version list"
  users :: "(string \<times> string) list"
  faults :: "error option list"

definition store_call :: "store \<Rightarrow> error option \<times> store" where
  "store_call db = (case faults db of [] \<Rightarrow> (None, db) | f # fs \<Rightarrow> (f, db\<lparr>faults := fs\<rparr>))"

text \<open>\<open>SELECT ... WHERE id = $1\<close> read with \<open>QueryRow\<close>: the first row with that id.\<close>

definition version_row :: "store \<Rightarrow> string \<Rightarrow> Version option" where
  "version_row db versionID = find (\<lambda>v. v_ID v = versionID) (versions db)"

definition app_row :: "store \<Rightarrow> string \<Rightarrow> App option" where
  "app_row db appID = find (\<lambda>a. a_ID a = appID) (apps db)"

text \<open>
  A statement sent to the store: the call fails with the scheduled fault, or the store
  executes the statement \<open>run\<close>.
\<close>

definition store_exec :: "store \<Rightarrow> (store \<Rightarrow> (error + 'a) \<times> store) \<Rightarrow> (error + 'a) \<times> store" where
  "store_exec db run =
     (case store_call db of (Some err, db1) \<Rightarrow> (Inl err, db1) | (None, db1) \<Rightarrow> run db1)"

text \<open>The version numbers of one application, in row order.\<close>

definition numbers_of :: "Version list \<Rightarrow> string \<Rightarrow> int list" where
  "numbers_of vs appID = map v_VersionNumber (filter (\<lambda>v. v_AppID v = appID) vs)"

text \<open>\<open>SELECT COALESCE(MAX(version_number), 0) FROM versions WHERE app_id = $1\<close>.\<close>

definition max_version_number :: "Version list \<Rightarrow> string \<Rightarrow> int" where
  "max_version_number vs appID =
     (case numbers_of vs appID of [] \<Rightarrow> 0 | n # ns \<Rightarrow> Max (set (n # ns)))"

definition select_max_version_number :: "store \<Rightarrow> string \<Rightarrow> (error + int) \<times> store" where
  "select_max_version_number db appID =
     store_exec db (\<lambda>db1. (Inr (max_version_number (versions db1) appID), db1))"

text \<open>\<open>INSERT INTO versions ... RETURNING ...\<close>: the new row is the last one, and is read back.\<close>

definition insert_version :: "store \<Rightarrow> Version \<Rightarrow> (error + Version) \<times> store" where
  "insert_version db version =
     store_exec db (\<lambda>db1. (Inr version, db1\<lparr>versions := versions db1 @ [version]\<rparr>))"

text \<open>\<open>SELECT ... FROM versions WHERE id = $1\<close>, scanned: no row is the error \<open>ErrNoRows\<close>.\<close>

definition select_version :: "store \<Rightarrow> string \<Rightarrow> (error + Version) \<times> store" where
  "select_version db versionID =
     store_exec db (\<lambda>db1.
       case version_row db1 versionID of
         None \<Rightarrow> (Inl ErrNoRows, db1)
       | Some version \<Rightarrow> (Inr version, db1))"

text \<open>
  The columns that \<open>UpdateVersion\<close> can set. A clause \<open>(col, arg)\<close> stands for the text
  \<open>col = $n\<close> in \<open>setClauses\<close> together with its argument in \<open>args\<close>; \<open>None\<close> is SQL's NULL.
\<close>

datatype column = status | s3_code_path | vercel_url | vercel_deploy_id | build_log | error_message

fun assign :: "column \<times> string option \<Rightarrow> Version \<Rightarrow> Version" where
  "assign (status, Some s) v = v\<lparr>v_Status := s\<rparr>"
| "assign (status, None) v = v"
| "assign (s3_code_path, x) v = v\<lparr>v_S3CodePath := x\<rparr>"
| "assign (vercel_url, x) v = v\<lparr>v_VercelURL := x\<rparr>"
| "assign (vercel_deploy_id, x) v = v\<lparr>v_VercelDeployID := x\<rparr>"
| "assign (build_log, x) v = v\<lparr>v_BuildLog := x\<rparr>"
| "assign (error_message, x) v = v\<lparr>v_ErrorMessage := x\<rparr>"

definition update_rows ::
  "(column \<times> string option) list \<Rightarrow> string \<Rightarrow> Version list \<Rightarrow> Version list" where
  "update_rows clauses versionID vs =
     map (\<lambda>v. if v_ID v = versionID then fold assign clauses v else v) vs"

text \<open>
  \<open>UPDATE versions SET ... WHERE id = $n RETURNING ...\<close>, scanned. The store rejects a
  \<open>SET\<close> list that names a column twice; no row with the id is the error \<open>ErrNoRows\<close>.
\<close>

definition update_version ::
  "store \<Rightarrow> (column \<times> string option) list \<Rightarrow> string \<Rightarrow> (error + Version) \<times> store" where
  "update_version db clauses versionID =
     store_exec db (\<lambda>db1.
       if \<not> distinct (map fst clauses) then (Inl ErrMultipleAssignments, db1)
       else
         (let db2 = db1\<lparr>versions := update_rows clauses versionID (versions db1)\<rparr> in
          case version_row db2 versionID of
            None \<Rightarrow> (Inl ErrNoRows, db2)
          | Some version \<Rightarrow> (Inr version, db2)))"

text \<open>\<open>DELETE FROM versions WHERE id = $1\<close>: the number of rows it removed.\<close>

definition delete_version :: "store \<Rightarrow> string \<Rightarrow> (error + nat) \<times> store" where
  "delete_version db versionID =
     store_exec db (\<lambda>db1.
       (Inr (length (filter (\<lambda>v. v_ID v = versionID) (versions db1))),
        db1\<lparr>versions := filter (\<lambda>v. v_ID v \<noteq> versionID) (versions db1)\<rparr>))"

text \<open>\<open>SELECT vercel_project_id FROM apps WHERE id = $1\<close>, scanned.\<close>

definition select_vercel_project_id :: "store \<Rightarrow> string \<Rightarrow> (error + string option) \<times> store" where
  "select_vercel_project_id db appID =
     store_exec db (\<lambda>db1.
       case app_row db1 appID of
         None \<Rightarrow> (Inl ErrNoRows, db1)
       | Some app \<Rightarrow> (Inr (a_VercelProjectID app), db1))"

text \<open>\<open>UPDATE apps SET prod_version = $1, updated_at = $2 WHERE id = $3\<close>.\<close>

definition set_prod_version :: "string \<Rightarrow> int \<Rightarrow> nat \<Rightarrow> App list \<Rightarrow> App list" where
  "set_prod_version appID n now as =
     map (\<lambda>a. if a_ID a = appID then a\<lparr>a_ProdVersion := Some n, a_UpdatedAt := now\<rparr> else a) as"

definition update_prod_version :: "store \<Rightarrow> int \<Rightarrow> nat \<Rightarrow> string \<Rightarrow> (error + unit) \<times> store" where
  "update_prod_version db n now appID =
     store_exec db (\<lambda>db1. (Inr (), db1\<lparr>apps := set_prod_version appID n now (apps db1)\<rparr>))"

text \<open>\<open>INSERT INTO apps ... RETURNING ...\<close>.\<close>

definition insert_app :: "store \<Rightarrow> App \<Rightarrow> (error + App) \<times> store" where
  "insert_app db app = store_exec db (\<lambda>db1. (Inr app, db1\<lparr>apps := apps db1 @ [app]\<rparr>))"

text \<open>
  \<open>UPDATE apps SET name = $1, display_name = $2, category = $3, color_scheme = $4,
  production_url = $5, updated_at = $6 WHERE id = $7\<close>.
\<close>

definition set_ai_config ::
  "string \<Rightarrow> string \<Rightarrow> string \<Rightarrow> string \<Rightarrow> string \<Rightarrow> string \<Rightarrow> nat \<Rightarrow> App list \<Rightarrow> App list" where
  "set_ai_config appID name display category color productionURL now as =
     map (\<lambda>a. if a_ID a = appID
              then a\<lparr> a_Name := name, a_DisplayName := Some display, a_Category := Some category,
                      a_ColorScheme := Some color, a_ProductionURL := Some productionURL,
                      a_UpdatedAt := now \<rparr>
              else a) as"

definition update_ai_config ::
  "store \<Rightarrow> string \<Rightarrow> string \<Rightarrow> string \<Rightarrow> string \<Rightarrow> string \<Rightarrow> nat \<Rightarrow> string
     \<Rightarrow> (error + unit) \<times> store" where
  "update_ai_config db name display category color productionURL now appID =
     store_exec db (\<lambda>db1.
       (Inr (), db1\<lparr>apps := set_ai_config appID name display category color productionURL now
                                 (apps db1)\<rparr>))"

text \<open>\<open>SELECT email FROM users WHERE id = $1\<close>, scanned.\<close>

definition select_email :: "store \<Rightarrow> string \<Rightarrow> (error + string) \<times> store" where
  "select_email db userID =
     store_exec db (\<lambda>db1.
       case map_of (users db1) userID of
         None \<Rightarrow> (Inl ErrNoRows, db1)
       | Some email \<Rightarrow> (Inr email, db1))"

section \<open>Version service\<close>

text \<open>A Go \<open>int\<close> has 64 bits: the result of an addition wraps around.\<close>

definition go_int :: "int \<Rightarrow> int" where
  "go_int n = (n + 2 ^ 63) mod 2 ^ 64 - 2 ^ 63"

text \<open>
  \<open>CreateVersion\<close>. The fresh identifier of \<open>uuid.New()\<close> and the time of \<open>time.Now()\<close> are
  arguments. The inserted row is returned as the \<open>RETURNING\<close> clause reads it back.
\<close>

definition CreateVersion :: "store \<Rightarrow> string \<Rightarrow> nat \<Rightarrow> string \<Rightarrow> (error + Version) \<times> store" where
  "CreateVersion db uuid now appID =
     (case select_max_version_number db appID of
        (Inl err, db1) \<Rightarrow> (Inl (ErrorWrap ''failed to get max version: '' err), db1)
      | (Inr maxVersion, db1) \<Rightarrow>
          (let version = \<lparr> v_ID = uuid, v_AppID = appID,
                           v_VersionNumber = go_int (maxVersion + 1),
                           v_Status = ''pending'',
                           v_S3CodePath = None, v_VercelURL = None, v_VercelDeployID = None,
                           v_BuildLog = None, v_ErrorMessage = None,
                           v_CreatedAt = now \<rparr>
           in case insert_version db1 version of
                (Inl err, db2) \<Rightarrow> (Inl (ErrorWrap ''failed to create version: '' err), db2)
              | (Inr inserted, db2) \<Rightarrow> (Inr inserted, db2)))"

definition GetVersion :: "store \<Rightarrow> string \<Rightarrow> (error + Version) \<times> store" where
  "GetVersion db versionID =
     (case select_version db versionID of
        (Inl err, db1) \<Rightarrow> (Inl (ErrorWrap ''version not found: '' err), db1)
      | (Inr version, db1) \<Rightarrow> (Inr version, db1))"

text \<open>
  The values of the update map, \<open>map[string]interface{}\<close>: a value of dynamic type
  \<open>string\<close>, of type \<open>*string\<close> (possibly a nil pointer), of another type, or nil. A key that
  is absent reads as nil. \<open>assert_string\<close> is the type assertion \<open>.(string)\<close> and
  \<open>assert_string_ptr\<close> is \<open>.(*string)\<close>; \<open>None\<close> is the assertion failing (\<open>ok\<close> false).
\<close>

datatype go_value = GoNil | GoString string | GoStringPtr "string option" | GoInt int | GoBool bool

fun assert_string :: "go_value option \<Rightarrow> string option" where
  "assert_string (Some (GoString s)) = Some s"
| "assert_string _ = None"

fun assert_string_ptr :: "go_value option \<Rightarrow> string option option" where
  "assert_string_ptr (Some (GoStringPtr p)) = Some p"
| "assert_string_ptr _ = None"

definition set_string :: "column \<Rightarrow> go_value option \<Rightarrow> (column \<times> string option) list" where
  "set_string col x = (case assert_string x of Some s \<Rightarrow> [(col, Some s)] | None \<Rightarrow> [])"

definition set_string_ptr :: "column \<Rightarrow> go_value option \<Rightarrow> (column \<times> string option) list" where
  "set_string_ptr col x = (case assert_string_ptr x of Some p \<Rightarrow> [(col, p)] | None \<Rightarrow> [])"

definition setClauses :: "(string \<rightharpoonup> go_value) \<Rightarrow> (column \<times> string option) list" where
  "setClauses updates =
     set_string status (updates ''status'')
     @ set_string s3_code_path (updates ''s3_code_path'')
     @ set_string vercel_url (updates ''vercel_url'')
     @ set_string vercel_deploy_id (updates ''vercel_deploy_id'')
     @ set_string build_log (updates ''build_log'')
     @ set_string_ptr error_message (updates ''error_message'')
     @ set_string vercel_url (updates ''deploy_url'')
     @ set_string s3_code_path (updates ''s3_key'')"

text \<open>
  The text of the statement that \<open>UpdateVersion\<close> builds from its clauses: \<open>UPDATE versions
  SET\<close>, the clauses \<open>col = $n\<close> numbered from 1 and joined by commas, the \<open>WHERE\<close> clause with
  the next number, and the \<open>RETURNING\<close> list.
\<close>

fun column_name :: "column \<Rightarrow> string" where
  "column_name status = ''status''"
| "column_name s3_code_path = ''s3_code_path''"
| "column_name vercel_url = ''vercel_url''"
| "column_name vercel_deploy_id = ''vercel_deploy_id''"
| "column_name build_log = ''build_log''"
| "column_name error_message = ''error_message''"

fun clause_texts :: "nat \<Rightarrow> (column \<times> string option) list \<Rightarrow> string list" where
  "clause_texts argCount [] = []"
| "clause_texts argCount ((col, arg) # clauses) =
     (column_name col @ '' = $'' @ decimal argCount) # clause_texts (Suc argCount) clauses"

fun strings_Join :: "string list \<Rightarrow> string \<Rightarrow> string" where
  "strings_Join [] sep = []"
| "strings_Join [s] sep = s"
| "strings_Join (s # t # ts) sep = s @ sep @ strings_Join (t # ts) sep"

definition update_query :: "(column \<times> string option) list \<Rightarrow> string" where
  "update_query clauses =
     ''UPDATE versions SET '' @ strings_Join (clause_texts 1 clauses) '', ''
     @ '' WHERE id = $'' @ decimal (length clauses + 1)
     @ '' RETURNING id, app_id, version_number, status, s3_code_path, vercel_url, vercel_deploy_id, build_log, error_message, created_at''"

text \<open>
  \<open>UpdateVersion\<close>. With no clause it returns before any call on the store; otherwise it
  sends one \<open>UPDATE ... RETURNING\<close> and returns the row scanned from it.
\<close>

definition UpdateVersion ::
  "store \<Rightarrow> string \<Rightarrow> (string \<rightharpoonup> go_value) \<Rightarrow> (error + Version) \<times> store" where
  "UpdateVersion db versionID updates =
     (let clauses = setClauses updates in
      if length clauses = 0 then (Inl (ErrorNew ''no fields to update''), db)
      else
        (case update_version db clauses versionID of
           (Inl err, db1) \<Rightarrow> (Inl (ErrorWrap ''failed to update version: '' err), db1)
         | (Inr version, db1) \<Rightarrow> (Inr version, db1)))"

definition DeleteVersion :: "store \<Rightarrow> string \<Rightarrow> error option \<times> store" where
  "DeleteVersion db versionID =
     (case delete_version db versionID of
        (Inl err, db1) \<Rightarrow> (Some (ErrorWrap ''failed to delete version: '' err), db1)
      | (Inr rowsAffected, db1) \<Rightarrow>
          if rowsAffected = 0 then (Some (ErrorNew ''version not found''), db1)
          else (None, db1))"

text \<open>
  The fields of an update map that \<open>UpdateVersion\<close> recognizes, by their keys: the five
  fields and the two legacy aliases that need a string, and \<open>error_message\<close>, which needs a
  pointer to a string.
\<close>

definition recognized_fields :: "(string \<rightharpoonup> go_value) \<Rightarrow> string list" where
  "recognized_fields updates =
     filter (\<lambda>k. assert_string (updates k) \<noteq> None)
       [''status'', ''s3_code_path'', ''vercel_url'', ''vercel_deploy_id'', ''build_log'']
     @ filter (\<lambda>k. assert_string_ptr (updates k) \<noteq> None) [''error_message'']
     @ filter (\<lambda>k. assert_string (updates k) \<noteq> None) [''deploy_url'', ''s3_key'']"

text \<open>Sequences of \<open>CreateVersion\<close> and \<open>DeleteVersion\<close> calls, whatever each call returns.\<close>

datatype version_op = OpCreateVersion string nat string | OpDeleteVersion string

fun apply_op :: "store \<Rightarrow> version_op \<Rightarrow> store" where
  "apply_op db (OpCreateVersion uuid now appID) = snd (CreateVersion db uuid now appID)"
| "apply_op db (OpDeleteVersion versionID) = snd (DeleteVersion db versionID)"

fun run_ops :: "store \<Rightarrow> version_op list \<Rightarrow> store" where
  "run_ops db [] = db"
| "run_ops db (op # ops) = run_ops (apply_op db op) ops"

text \<open>
  A version number that is a Go \<open>int\<close> and stays one after \<open>k\<close> more increments.
\<close>

definition headroom :: "nat \<Rightarrow> int \<Rightarrow> bool" where
  "headroom k n = (- (2 ^ 63) \<le> n \<and> n + int k < 2 ^ 63)"

text \<open>
  The numbering of one application's versions is in order: the numbers increase strictly
  along the rows, and each leaves room for \<open>k\<close> more increments of a Go \<open>int\<close>.
\<close>

definition well_numbered :: "nat \<Rightarrow> Version list \<Rightarrow> string \<Rightarrow> bool" where
  "well_numbered k vs a =
     (sorted_wrt (<) (numbers_of vs a) \<and> list_all (headroom k) (0 # numbers_of vs a))"

section \<open>Deployment platform\<close>

text \<open>
  What \<open>PromoteDeployment\<close> gets for its request: \<open>RequestError err\<close> when building or
  sending the request fails (\<open>http.NewRequest\<close>, \<open>Client.Do\<close>), else the status code and the
  body of the response. \<open>PromoteDeployment\<close> is a function of that outcome.
\<close>

datatype http_outcome = RequestError error | Response nat string

definition PromoteDeployment :: "http_outcome \<Rightarrow> error option" where
  "PromoteDeployment resp =
     (case resp of
        RequestError err \<Rightarrow> Some err
      | Response StatusCode body \<Rightarrow>
          if StatusCode \<noteq> 201 \<and> StatusCode \<noteq> 202 \<and> StatusCode \<noteq> 409
          then Some (ErrorNew (''vercel promotion failed (status '' @ decimal StatusCode
                                 @ ''): '' @ body))
          else if StatusCode = 409
          then (if strings_Contains body ''already the current production deployment''
                then None
                else Some (ErrorNew (''vercel promotion conflict (status 409): '' @ body)))
          else None)"

text \<open>The check \<open>p == nil || *p == ""\<close>: \<open>None\<close> when it holds, else the string pointed to.\<close>

definition non_empty :: "string option \<Rightarrow> string option" where
  "non_empty p = (case p of None \<Rightarrow> None | Some s \<Rightarrow> if s = [] then None else Some s)"

text \<open>The error of \<open>PromoteVersion\<close> for a version whose status is \<open>st\<close>, not \<open>completed\<close>.\<close>

definition not_completed_error :: "string \<Rightarrow> error" where
  "not_completed_error st =
     ErrorNew (''cannot promote version with status '' @ quoted st @ '', must be ''
               @ quoted ''completed'')"

text \<open>
  \<open>PromoteVersion\<close>. The platform is the function \<open>vercel\<close> from project and deployment
  identifier to the outcome of the request. The result is the returned error, the store,
  and the list of the calls made to the platform.
\<close>

definition PromoteVersion ::
  "(string \<Rightarrow> string \<Rightarrow> http_outcome) \<Rightarrow> store \<Rightarrow> nat \<Rightarrow> string
     \<Rightarrow> error option \<times> store \<times> (string \<times> string) list" where
  "PromoteVersion vercel db now versionID =
     (case GetVersion db versionID of
        (Inl err, db1) \<Rightarrow> (Some err, db1, [])
      | (Inr version, db1) \<Rightarrow>
          if v_Status version \<noteq> ''completed''
          then (Some (not_completed_error (v_Status version)), db1, [])
          else
            (case non_empty (v_VercelDeployID version) of
               None \<Rightarrow> (Some (ErrorNew ''version has no vercel deployment ID''), db1, [])
             | Some deploymentID \<Rightarrow>
                 (case select_vercel_project_id db1 (v_AppID version) of
                    (Inl err, db2) \<Rightarrow> (Some (ErrorWrap ''failed to fetch app: '' err), db2, [])
                  | (Inr VercelProjectID, db2) \<Rightarrow>
                      (case non_empty VercelProjectID of
                         None \<Rightarrow> (Some (ErrorNew ''app has no vercel project ID''), db2, [])
                       | Some projectID \<Rightarrow>
                           (case PromoteDeployment (vercel projectID deploymentID) of
                              Some err \<Rightarrow>
                                (Some (ErrorWrap ''failed to promote deployment on Vercel: '' err),
                                 db2, [(projectID, deploymentID)])
                            | None \<Rightarrow>
                                (case update_prod_version db2 (v_VersionNumber version) now
                                        (v_AppID version) of
                                   (Inl err, db3) \<Rightarrow>
                                     (Some (ErrorWrap ''failed to update app prod_version: '' err),
                                      db3, [(projectID, deploymentID)])
                                 | (Inr _, db3) \<Rightarrow>
                                     (case UpdateVersion db3 versionID
                                             [''status'' \<mapsto> GoString ''promoted''] of
                                        (Inl err, db4) \<Rightarrow>
                                          (Some err, db4, [(projectID, deploymentID)])
                                      | (Inr _, db4) \<Rightarrow>
                                          (None, db4, [(projectID, deploymentID)]))))))))"

section \<open>Application service\<close>

record AppConfig =
  AppName :: string
  DisplayName :: string
  RequiresAuth :: bool
  AllowSignup :: bool
  Category :: string
  Keywords :: "string list"
  ColorScheme :: string

text \<open>
  Modelled from the spec: the declaration of \<open>models.CreateAppRequest\<close> (not among the
  sources); \<open>CreateApp\<close> reads its \<open>Description\<close> only.
\<close>

record CreateAppRequest =
  Description :: string

text \<open>
  What the setup does besides writing to the store: a line it logs, a run of the
  \<open>app-manager\<close> command with its arguments, and the launch of logo generation
  (\<open>go s.generateAndUploadLogo(appID, appName, category, colorScheme)\<close>).
\<close>

datatype effect =
    Log string
  | AppManager "string list"
  | GoLogo string string string string

text \<open>The effects that are log lines.\<close>

fun is_log :: "effect \<Rightarrow> bool" where
  "is_log (Log line) = True"
| "is_log (AppManager args) = False"
| "is_log (GoLogo appID appName category colorScheme) = False"

text \<open>
  \<open>CreateApp\<close>. The fresh identifier and the two readings of the clock are arguments. The
  third component of the result is the background task \<open>CreateApp\<close> launches with \<open>go\<close>: the
  arguments of \<open>extractConfigAndSetupApp\<close>, or \<open>None\<close> when it returns before.
\<close>

definition CreateApp ::
  "(string \<Rightarrow> string) \<Rightarrow> store \<Rightarrow> string \<Rightarrow> nat \<Rightarrow> nat \<Rightarrow> string \<Rightarrow> CreateAppRequest
     \<Rightarrow> (error + App) \<times> store \<times> (string \<times> string \<times> string) option" where
  "CreateApp U db uuid now1 now2 userID req =
     (let appID = uuid;
          tempName = ''MyApp'';
          tempDisplayName = ''My App'';
          tempCategory = ''other'';
          tempColorScheme = ''blue'';
          productionURL = GenerateProductionDomain U tempName appID;
          app = \<lparr> a_ID = appID, a_UserID = userID, a_Name = tempName,
                   a_DisplayName = Some tempDisplayName, a_Description = Description req,
                   a_Category = Some tempCategory, a_ColorScheme = Some tempColorScheme,
                   a_Logo = None, a_Status = ''building'', a_ProdVersion = None,
                   a_ProductionURL = Some productionURL, a_VercelProjectID = None,
                   a_CreatedAt = now1, a_UpdatedAt = now2 \<rparr>
      in case insert_app db app of
           (Inl err, db1) \<Rightarrow> (Inl (ErrorWrap ''failed to create app: '' err), db1, None)
         | (Inr inserted, db1) \<Rightarrow> (Inr inserted, db1, Some (appID, userID, Description req)))"

definition GetOwnerEmail :: "store \<Rightarrow> string \<Rightarrow> (error + string) \<times> store" where
  "GetOwnerEmail db userID =
     (case select_email db userID of
        (Inl err, db1) \<Rightarrow> (Inl (ErrorWrap ''failed to get owner email: '' err), db1)
      | (Inr email, db1) \<Rightarrow> (Inr email, db1))"

text \<open>
  Stage 1 of \<open>extractConfigAndSetupApp\<close>: the configuration the pipeline goes on with, given
  what \<open>GeminiService.ExtractAppConfig\<close> returned, and the warning it logs on an error.
\<close>

definition default_config :: AppConfig where
  "default_config = \<lparr> AppName = ''MyApp'', DisplayName = ''My App'', RequiresAuth = True,
      AllowSignup = True, Category = ''other'', Keywords = [''app''], ColorScheme = ''blue'' \<rparr>"

definition resolve_config :: "(error + AppConfig) \<Rightarrow> AppConfig \<times> effect list" where
  "resolve_config extracted =
     (case extracted of
        Inl err \<Rightarrow>
          (default_config,
           [Log (''[AI Setup] Warning: Failed to extract config with Gemini, using defaults: ''
                 @ err_text err)])
      | Inr appConfig \<Rightarrow> (appConfig, []))"

text \<open>
  \<open>extractConfigAndSetupApp\<close>. The AI endpoint is the function \<open>ExtractAppConfig\<close> from the
  description to what \<open>GeminiService.ExtractAppConfig\<close> returns, and the registry command is
  the function \<open>run_cmd\<close> from its arguments to the error of \<open>cmd.Run()\<close> and the text it
  wrote to standard error. The result is the store and the effects in the order they happen.
\<close>

definition extractConfigAndSetupApp ::
  "(string \<Rightarrow> string) \<Rightarrow> (string \<Rightarrow> error + AppConfig) \<Rightarrow> (string list \<Rightarrow> error option \<times> string)
     \<Rightarrow> store \<Rightarrow> nat \<Rightarrow> string \<Rightarrow> string \<Rightarrow> string \<Rightarrow> store \<times> effect list" where
  "extractConfigAndSetupApp U ExtractAppConfig run_cmd db now appID userID description =
     (let log1 = [Log (''[AI Setup] Starting async config extraction for app '' @ appID)];
          (appConfig, log2) = resolve_config (ExtractAppConfig description);
          log3 = [Log (''[AI Setup] Extracted config for app '' @ appID @ '': name='' @ AppName appConfig
                       @ '', category='' @ Category appConfig @ '', color='' @ ColorScheme appConfig)];
          productionURL = GenerateProductionDomain U (AppName appConfig) appID
      in case update_ai_config db (AppName appConfig) (DisplayName appConfig) (Category appConfig)
                (ColorScheme appConfig) productionURL now appID of
           (Inl err, db1) \<Rightarrow>
             (db1, log1 @ log2 @ log3
                   @ [Log (''[AI Setup] Failed to update PostgreSQL with AI config: '' @ err_text err)])
         | (Inr _, db2) \<Rightarrow>
             (let log4 = [Log (''[AI Setup] Updated PostgreSQL for app '' @ appID
                               @ '' with AI-generated name '' @ quoted (AppName appConfig))];
                  (owner, db3) = GetOwnerEmail db2 userID;
                  (ownerEmail, log5) =
                    (case owner of
                       Inl err \<Rightarrow>
                         (''unknown@example.com'',
                          [Log (''[AI Setup] Warning: Failed to get owner email: '' @ err_text err)])
                     | Inr email \<Rightarrow> (email, []));
                  args = [''create'', appID, ''--name'', AppName appConfig, ''--owner-email'', ownerEmail];
                  log6 =
                    (case run_cmd args of
                       (Some err, stderr) \<Rightarrow>
                         [Log (''[AI Setup] Warning: Failed to create MongoDB app: '' @ err_text err
                               @ '' (stderr: '' @ stderr @ '')'')]
                     | (None, stderr) \<Rightarrow>
                         [Log (''[AI Setup] Created MongoDB app with AI-generated name ''
                               @ quoted (AppName appConfig))])
              in (db3, log1 @ log2 @ log3 @ log4 @ log5 @ [AppManager args] @ log6
                       @ [GoLogo appID (AppName appConfig) (Category appConfig) (ColorScheme appConfig),
                          Log (''[AI Setup] Completed async setup for app '' @ appID)])))"

text \<open>
  \<open>CreateApp\<close> followed by the background task it launched, run to its end: the record
  \<open>CreateApp\<close> returned, the store after the task, and the task's effects.
\<close>

definition CreateApp_then_setup ::
  "(string \<Rightarrow> string) \<Rightarrow> (string \<Rightarrow> error + AppConfig) \<Rightarrow> (string list \<Rightarrow> error option \<times> string)
     \<Rightarrow> store \<Rightarrow> string \<Rightarrow> nat \<Rightarrow> nat \<Rightarrow> nat \<Rightarrow> string \<Rightarrow> CreateAppRequest
     \<Rightarrow> (error + App) \<times> store \<times> effect list" where
  "CreateApp_then_setup U ExtractAppConfig run_cmd db uuid now1 now2 now3 userID req =
     (case CreateApp U db uuid now1 now2 userID req of
        (result, db1, None) \<Rightarrow> (result, db1, [])
      | (result, db1, Some (appID, uid, description)) \<Rightarrow>
          (case extractConfigAndSetupApp U ExtractAppConfig run_cmd db1 now3 appID uid description of
             (db2, effects) \<Rightarrow> (result, db2, effects)))"

section \<open>Concrete inputs\<close>

definition platform_accepts :: "string \<Rightarrow> string \<Rightarrow> http_outcome" where
  "platform_accepts projectID deploymentID = Response 201 []"

definition platform_already :: "string \<Rightarrow> string \<Rightarrow> http_outcome" where
  "platform_already projectID deploymentID =
     Response 409 ''Deployment is already the current production deployment''"

definition platform_down :: "string \<Rightarrow> string \<Rightarrow> http_outcome" where
  "platform_down projectID deploymentID = Response 500 ''boom''"

definition example_version :: Version where
  "example_version = \<lparr> v_ID = ''v1'', v_AppID = ''a1'', v_VersionNumber = 3,
      v_Status = ''completed'', v_S3CodePath = None, v_VercelURL = None,
      v_VercelDeployID = Some ''dpl_1'', v_BuildLog = None, v_ErrorMessage = None,
      v_CreatedAt = 0 \<rparr>"

definition example_app :: App where
  "example_app = \<lparr> a_ID = ''a1'', a_UserID = ''u1'', a_Name = ''MyApp'',
      a_DisplayName = Some ''My App'', a_Description = ''a shop'', a_Category = Some ''other'',
      a_ColorScheme = Some ''blue'', a_Logo = None, a_Status = ''building'',
      a_ProdVersion = None, a_ProductionURL = Some ''myapp-111111.rapidbuild.app'',
      a_VercelProjectID = Some ''prj_1'', a_CreatedAt = 0, a_UpdatedAt = 0 \<rparr>"

definition example_store :: store where
  "example_store = \<lparr> apps = [example_app], versions = [example_version],
      users = [(''u1'', ''u1@example.com'')], faults = [] \<rparr>"

definition empty_store :: store where
  "empty_store = \<lparr> apps = [], versions = [], users = [], faults = [] \<rparr>"

definition gemini_fails :: "string \<Rightarrow> error + AppConfig" where
  "gemini_fails description = Inl (ErrorNew ''Gemini API error (status 500): '')"

definition gemini_answers :: "string \<Rightarrow> error + AppConfig" where
  "gemini_answers description =
     Inr \<lparr> AppName = ''Shoply'', DisplayName = ''Shoply'', RequiresAuth = True,
           AllowSignup = True, Category = ''ecommerce'', Keywords = [''shop''],
           ColorScheme = ''green'' \<rparr>"

definition cmd_ok :: "string list \<Rightarrow> error option \<times> string" where
  "cmd_ok args = (None, [])"

definition no_updates :: "string \<rightharpoonup> go_value" where
  "no_updates = Map.empty"

definition status_building :: "string \<rightharpoonup> go_value" where
  "status_building = [''status'' \<mapsto> GoString ''building'']"

definition both_urls :: "string \<rightharpoonup> go_value" where
  "both_urls = [''vercel_url'' \<mapsto> GoString ''https://a.example'',
                ''deploy_url'' \<mapsto> GoString ''https://b.example'']"

definition two_creates :: "version_op list" where
  "two_creates = [OpCreateVersion ''v1'' 1 ''a1'', OpCreateVersion ''v2'' 2 ''a1'']"

definition reuse_ops :: "version_op list" where
  "reuse_ops = two_creates @ [OpDeleteVersion ''v2'', OpCreateVersion ''v3'' 3 ''a1'']"

definition promoted_store :: store where
  "promoted_store = example_store\<lparr>versions := [example_version\<lparr>v_Status := ''promoted''\<rparr>]\<rparr>"

definition no_deployment_store :: store where
  "no_deployment_store =
     example_store\<lparr>versions := [example_version\<lparr>v_VercelDeployID := Some []\<rparr>]\<rparr>"

definition no_project_store :: store where
  "no_project_store = example_store\<lparr>apps := [example_app\<lparr>a_VercelProjectID := None\<rparr>]\<rparr>"

definition faulty_store :: store where
  "faulty_store = example_store\<lparr>faults := [Some (ErrorNew ''connection reset'')]\<rparr>"

definition example_request :: CreateAppRequest where
  "example_request = \<lparr>Description = ''a shop''\<rparr>"

definition example_uuid :: string where
  "example_uuid = ''2028362b-a14a-43ac-87d8-0e26c7401623''"

definition created_app :: App where
  "created_app = \<lparr> a_ID = example_uuid, a_UserID = ''u1'', a_Name = ''MyApp'',
      a_DisplayName = Some ''My App'', a_Description = ''a shop'', a_Category = Some ''other'',
      a_ColorScheme = Some ''blue'', a_Logo = None, a_Status = ''building'',
      a_ProdVersion = None, a_ProductionURL = Some ''myapp-401623.rapidbuild.app'',
      a_VercelProjectID = None, a_CreatedAt = 1, a_UpdatedAt = 2 \<rparr>"

section \<open>Properties of the Domain Namer\<close>

lemma collapse_hyphens_head: "\<exists>zs. collapse_hyphens (x # xs) = x # zs"
proof (induction xs arbitrary: x)
  case Nil
  show ?case by simp
next
  case (Cons d cs)
  from Cons.IH [of d] obtain zs where "collapse_hyphens (d # cs) = d # zs" ..
  then show ?case by auto
qed

lemma collapse_hyphens_Cons:
  "collapse_hyphens (c # xs) =
     (case collapse_hyphens xs of
        [] \<Rightarrow> [c]
      | z # zs \<Rightarrow> if c = CHR ''-'' \<and> z = CHR ''-'' then z # zs else c # z # zs)"
proof (cases xs)
  case Nil
  then show ?thesis by simp
next
  case (Cons d cs)
  obtain zs where "collapse_hyphens (d # cs) = d # zs"
    using collapse_hyphens_head by blast
  with Cons show ?thesis by auto
qed

lemma collapse_hyphens_cong:
  "collapse_hyphens xs = collapse_hyphens ys \<Longrightarrow>
   collapse_hyphens (c # xs) = collapse_hyphens (c # ys)"
  by (simp only: collapse_hyphens_Cons)

lemma collapse_hyphens_append_cong:
  "collapse_hyphens xs = collapse_hyphens ys \<Longrightarrow>
   collapse_hyphens (ps @ xs) = collapse_hyphens (ps @ ys)"
  by (induction ps) (auto intro: collapse_hyphens_cong)

lemma slug_char_hyphen: "slug_char CHR ''-''"
  by (simp add: slug_char_def)

lemma not_slug_char_space: "\<not> slug_char CHR '' ''"
  by (simp add: slug_char_def)

text \<open>Leading spaces of the rest add nothing after a hyphen once hyphens are collapsed.\<close>

lemma collapse_after_hyphen_dropWhile:
  "collapse_hyphens (CHR ''-'' # filter slug_char (strings_ReplaceAll cs CHR '' '' ''-'')) =
   collapse_hyphens (CHR ''-'' #
     filter slug_char (strings_ReplaceAll (dropWhile is_space cs) CHR '' '' ''-''))"
proof (induction cs)
  case Nil
  show ?case by simp
next
  case (Cons c cs)
  show ?case
  proof (cases "c = CHR '' ''")
    case True
    then show ?thesis
      using Cons.IH by (simp add: strings_ReplaceAll_def is_space_def slug_char_hyphen)
  next
    case False
    then show ?thesis by (simp add: is_space_def)
  qed
qed

lemma replace_each_eq_replace_runs:
  "collapse_hyphens (filter slug_char (strings_ReplaceAll s CHR '' '' ''-'')) =
   collapse_hyphens (filter slug_char (replace_runs is_space s))"
proof (induction "length s" arbitrary: s rule: less_induct)
  case less
  show ?case
  proof (cases s)
    case Nil
    then show ?thesis by (simp add: strings_ReplaceAll_def)
  next
    case (Cons c cs)
    show ?thesis
    proof (cases "is_space c")
      case True
      then have c: "c = CHR '' ''" by (simp add: is_space_def)
      have shorter: "length (dropWhile is_space cs) < length s"
        using Cons by (simp add: length_dropWhile_le less_Suc_eq_le)
      have "collapse_hyphens (filter slug_char (strings_ReplaceAll (c # cs) CHR '' '' ''-'')) =
            collapse_hyphens (CHR ''-'' # filter slug_char (strings_ReplaceAll cs CHR '' '' ''-''))"
        by (simp add: c strings_ReplaceAll_def slug_char_hyphen)
      also have "\<dots> = collapse_hyphens (CHR ''-'' #
          filter slug_char (strings_ReplaceAll (dropWhile is_space cs) CHR '' '' ''-''))"
        by (rule collapse_after_hyphen_dropWhile)
      also have "\<dots> = collapse_hyphens (CHR ''-'' #
          filter slug_char (replace_runs is_space (dropWhile is_space cs)))"
        using less [OF shorter] by (rule collapse_hyphens_cong)
      finally show ?thesis
        using True Cons by (simp add: slug_char_hyphen)
    next
      case False
      then have c: "c \<noteq> CHR '' ''" by (simp add: is_space_def)
      have shorter: "length cs < length s"
        using Cons by simp
      have "collapse_hyphens (filter slug_char [c] @ filter slug_char (strings_ReplaceAll cs CHR '' '' ''-'')) =
            collapse_hyphens (filter slug_char [c] @ filter slug_char (replace_runs is_space cs))"
        using less [OF shorter] by (rule collapse_hyphens_append_cong)
      then show ?thesis
        using False c Cons by (auto simp add: strings_ReplaceAll_def)
    qed
  qed
qed

lemma strip_hyphens_eq_filter:
  "strings_ReplaceAll s CHR ''-'' [] = filter (\<lambda>c. c \<noteq> CHR ''-'') s"
  by (induction s) (simp_all add: strings_ReplaceAll_def)

lemma suffix_eq_last_chars:
  "(if length s \<ge> n then drop (length s - n) s else s) = last_chars n s"
proof -
  have "rev (take n (rev s)) = drop (length s - n) s"
    by (simp add: take_rev)
  then show ?thesis
    by (simp add: last_chars_def)
qed

text \<open>
  Claim C8. \<open>GenerateProductionDomain\<close> applied to the name \<open>My Cool App!!\<close> and the
  identifier \<open>2028362b-a14a-43ac-87d8-0e26c7401623\<close> returns exactly
  \<open>my-cool-app-401623.rapidbuild.app\<close>, and this output is non-empty and consists of
  lowercase letters, digits, hyphens and dots only.
\<close>

theorem C8_domain_scenario:
  "GenerateProductionDomain U ''My Cool App!!'' ''2028362b-a14a-43ac-87d8-0e26c7401623''
     = ''my-cool-app-401623.rapidbuild.app''
   \<and> GenerateProductionDomain U ''My Cool App!!'' ''2028362b-a14a-43ac-87d8-0e26c7401623'' \<noteq> []
   \<and> list_all hostname_char
       (GenerateProductionDomain U ''My Cool App!!'' ''2028362b-a14a-43ac-87d8-0e26c7401623'')"
  by code_simp

text \<open>
  Claim C7, as the specification states it, is refuted: the code replaces each space
  character by a hyphen, and a tab (like every other whitespace character that is not a
  space) is stripped with the characters outside \<open>[a-z0-9-]\<close>. For the name \<open>a<TAB>b\<close> the
  code returns \<open>ab-1.rapidbuild.app\<close> where the specification's algorithm gives
  \<open>a-b-1.rapidbuild.app\<close>.
\<close>

theorem C7_whitespace_counterexample:
  "GenerateProductionDomain id [CHR ''a'', CHR 0x09, CHR ''b''] ''1'' = ''ab-1.rapidbuild.app''
   \<and> domain_namer_spec id [CHR ''a'', CHR 0x09, CHR ''b''] ''1'' = ''a-b-1.rapidbuild.app''
   \<and> GenerateProductionDomain id [CHR ''a'', CHR 0x09, CHR ''b''] ''1''
       \<noteq> domain_namer_spec id [CHR ''a'', CHR 0x09, CHR ''b''] ''1''"
  by code_simp

text \<open>
  Claim C7, amended: for every name and identifier the Domain Namer lower-cases the name,
  replaces runs of space characters with single hyphens, strips every character outside
  \<open>[a-z0-9-]\<close> (other whitespace included), collapses repeated hyphens, trims leading and
  trailing hyphens, substitutes \<open>app\<close> for an empty result, and concatenates it with a
  hyphen, the last 6 characters of the hyphen-stripped identifier (the whole of it if
  shorter) and the platform domain. It is a total function of its two arguments: it always
  returns a string.
\<close>

theorem C7_domain_namer_amended:
  "GenerateProductionDomain U name ident = domain_namer_amended U name ident"
proof -
  have slug: "Slugify U name =
      strings_Trim (collapse_hyphens (filter slug_char (replace_runs is_space (strings_ToLower U name)))) ''-''"
    by (simp add: Slugify_def replace_each_eq_replace_runs)
  have suffix: "(let cleanID = strings_ReplaceAll ident CHR ''-'' [];
                     idLength = length cleanID
                 in if idLength \<ge> 6 then drop (idLength - 6) cleanID else cleanID)
        = last_chars 6 (filter (\<lambda>c. c \<noteq> CHR ''-'') ident)"
    by (simp add: Let_def strip_hyphens_eq_filter suffix_eq_last_chars del: One_nat_def)
  show ?thesis
    using suffix
    by (simp add: GenerateProductionDomain_def domain_namer_amended_def spec_namer_def slug Let_def)
qed

section \<open>The store and version update\<close>

lemma store_call_tables:
  "apps (snd (store_call db)) = apps db"
  "versions (snd (store_call db)) = versions db"
  "users (snd (store_call db)) = users db"
  by (simp_all add: store_call_def split: list.splits)

lemma store_call_healthy: "faults db = [] \<Longrightarrow> store_call db = (None, db)"
  by (simp add: store_call_def)

lemma version_row_store_call: "version_row (snd (store_call db)) i = version_row db i"
  by (simp add: version_row_def store_call_tables)

lemma app_row_store_call: "app_row (snd (store_call db)) i = app_row db i"
  by (simp add: app_row_def store_call_tables)

lemma store_exec_ok:
  "fst (store_call db) = None \<Longrightarrow> store_exec db run = run (snd (store_call db))"
  by (cases "store_call db") (simp add: store_exec_def)

lemma store_exec_healthy: "faults db = [] \<Longrightarrow> store_exec db run = run db"
  by (simp add: store_exec_def store_call_healthy)

lemma store_exec_fault:
  "fst (store_call db) = Some err \<Longrightarrow> store_exec db run = (Inl err, snd (store_call db))"
  by (cases "store_call db") (simp add: store_exec_def)

lemma assign_keeps:
  "v_ID (assign c v) = v_ID v" "v_AppID (assign c v) = v_AppID v"
  "v_VersionNumber (assign c v) = v_VersionNumber v" "v_CreatedAt (assign c v) = v_CreatedAt v"
  by (cases c; cases "fst c"; cases "snd c"; simp)+

lemma fold_assign_keeps:
  "v_ID (fold assign cs v) = v_ID v" "v_AppID (fold assign cs v) = v_AppID v"
  "v_VersionNumber (fold assign cs v) = v_VersionNumber v"
  "v_CreatedAt (fold assign cs v) = v_CreatedAt v"
  by (induction cs arbitrary: v) (simp_all add: assign_keeps)

lemma find_update_rows:
  "find (\<lambda>v. v_ID v = i) (update_rows cs i vs) = map_option (fold assign cs) (find (\<lambda>v. v_ID v = i) vs)"
  by (induction vs) (simp_all add: update_rows_def fold_assign_keeps)

lemma set_string_length: "length (set_string c x) = (if assert_string x \<noteq> None then 1 else 0)"
  by (simp add: set_string_def split: option.splits)

lemma set_string_ptr_length:
  "length (set_string_ptr c x) = (if assert_string_ptr x \<noteq> None then 1 else 0)"
  by (simp add: set_string_ptr_def split: option.splits)

lemma length_setClauses: "length (setClauses updates) = length (recognized_fields updates)"
  by (simp add: setClauses_def recognized_fields_def set_string_length set_string_ptr_length)

lemma setClauses_Nil_iff: "(setClauses updates = []) = (recognized_fields updates = [])"
  using length_setClauses [of updates] by (metis length_0_conv)

text \<open>
  Claim C9, amended. Calling version update with a field set containing zero recognized
  fields fails with the no-fields error and leaves the store as it was: no call on the
  store is made. With at least one recognized field and no column assigned twice, one
  \<open>UPDATE\<close> is sent, and when the store executes it: if a row with the id is stored, the
  call returns the full updated row (the stored row with the assignments applied, every
  other column as before, and it is the row now stored under the id); if no row has the id,
  the call fails with \<open>failed to update version\<close> wrapping the no-rows error and no table
  changes.
\<close>

theorem C9_update_version_fields:
  "(recognized_fields updates = [] \<longrightarrow>
      UpdateVersion db versionID updates = (Inl (ErrorNew ''no fields to update''), db))
   \<and> (recognized_fields updates \<noteq> [] \<and> fst (store_call db) = None
        \<and> distinct (map fst (setClauses updates)) \<and> version_row db versionID = Some old \<longrightarrow>
      (\<exists>new db'. UpdateVersion db versionID updates = (Inr new, db')
          \<and> version_row db' versionID = Some new
          \<and> new = fold assign (setClauses updates) old
          \<and> v_ID new = v_ID old \<and> v_AppID new = v_AppID old
          \<and> v_VersionNumber new = v_VersionNumber old \<and> v_CreatedAt new = v_CreatedAt old
          \<and> apps db' = apps db \<and> users db' = users db))
   \<and> (recognized_fields updates \<noteq> [] \<and> fst (store_call db) = None
        \<and> distinct (map fst (setClauses updates)) \<and> version_row db versionID = None \<longrightarrow>
      (\<exists>db'. UpdateVersion db versionID updates
                = (Inl (ErrorWrap ''failed to update version: '' ErrNoRows), db')
          \<and> versions db' = versions db \<and> apps db' = apps db \<and> users db' = users db))"
proof (intro conjI impI)
  assume "recognized_fields updates = []"
  then have "setClauses updates = []"
    by (simp add: setClauses_Nil_iff)
  then show "UpdateVersion db versionID updates = (Inl (ErrorNew ''no fields to update''), db)"
    by (simp add: UpdateVersion_def)
next
  assume a: "recognized_fields updates \<noteq> [] \<and> fst (store_call db) = None
        \<and> distinct (map fst (setClauses updates)) \<and> version_row db versionID = Some old"
  define db1 where "db1 = snd (store_call db)"
  define new where "new = fold assign (setClauses updates) old"
  define db' where "db' = db1\<lparr>versions := update_rows (setClauses updates) versionID (versions db1)\<rparr>"
  have clauses: "setClauses updates \<noteq> []"
    using a by (simp add: setClauses_Nil_iff)
  have old: "find (\<lambda>v. v_ID v = versionID) (versions db1) = Some old"
    using a by (simp add: db1_def store_call_tables version_row_def)
  have row: "version_row db' versionID = Some new"
    by (simp add: db'_def version_row_def find_update_rows old new_def)
  have "update_version db (setClauses updates) versionID = (Inr new, db')"
    using a row by (simp add: update_version_def store_exec_ok Let_def db'_def db1_def)
  then have "UpdateVersion db versionID updates = (Inr new, db')"
    using clauses by (simp add: UpdateVersion_def Let_def)
  moreover have "apps db' = apps db" "users db' = users db"
    by (simp_all add: db'_def db1_def store_call_tables)
  ultimately show "\<exists>new db'. UpdateVersion db versionID updates = (Inr new, db')
          \<and> version_row db' versionID = Some new
          \<and> new = fold assign (setClauses updates) old
          \<and> v_ID new = v_ID old \<and> v_AppID new = v_AppID old
          \<and> v_VersionNumber new = v_VersionNumber old \<and> v_CreatedAt new = v_CreatedAt old
          \<and> apps db' = apps db \<and> users db' = users db"
    using row by (auto simp add: new_def fold_assign_keeps)
next
  assume a: "recognized_fields updates \<noteq> [] \<and> fst (store_call db) = None
        \<and> distinct (map fst (setClauses updates)) \<and> version_row db versionID = None"
  define db1 where "db1 = snd (store_call db)"
  define db' where "db' = db1\<lparr>versions := update_rows (setClauses updates) versionID (versions db1)\<rparr>"
  have clauses: "setClauses updates \<noteq> []"
    using a by (simp add: setClauses_Nil_iff)
  have none: "find (\<lambda>v. v_ID v = versionID) (versions db1) = None"
    using a by (simp add: db1_def store_call_tables version_row_def)
  have row: "version_row db' versionID = None"
    by (simp add: db'_def version_row_def find_update_rows none)
  have same: "update_rows (setClauses updates) versionID (versions db1) = versions db1"
    using none by (auto simp add: update_rows_def find_None_iff intro: map_idI)
  have "update_version db (setClauses updates) versionID = (Inl ErrNoRows, db')"
    using a row by (simp add: update_version_def store_exec_ok Let_def db'_def db1_def)
  then have "UpdateVersion db versionID updates
      = (Inl (ErrorWrap ''failed to update version: '' ErrNoRows), db')"
    using clauses by (simp add: UpdateVersion_def Let_def)
  moreover have "versions db' = versions db" "apps db' = apps db" "users db' = users db"
    using same by (simp_all add: db'_def db1_def store_call_tables)
  ultimately show "\<exists>db'. UpdateVersion db versionID updates
                = (Inl (ErrorWrap ''failed to update version: '' ErrNoRows), db')
          \<and> versions db' = versions db \<and> apps db' = apps db \<and> users db' = users db"
    by blast
qed

theorem C9_update_version_witness:
  "UpdateVersion example_store ''v1'' no_updates = (Inl (ErrorNew ''no fields to update''), example_store)
   \<and> recognized_fields status_building = [''status'']
   \<and> fst (store_call example_store) = None
   \<and> distinct (map fst (setClauses status_building))
   \<and> version_row example_store ''v1'' = Some example_version
   \<and> fst (UpdateVersion example_store ''v1'' status_building)
       = Inr (fold assign [(status, Some ''building'')] example_version)
   \<and> version_row example_store ''v9'' = None
   \<and> fst (UpdateVersion example_store ''v9'' status_building)
       = Inl (ErrorWrap ''failed to update version: '' ErrNoRows)"
proof -
  have r0: "recognized_fields no_updates = []"
    by (simp add: recognized_fields_def no_updates_def)
  have r1: "recognized_fields status_building = [''status'']"
    by (simp add: recognized_fields_def status_building_def)
  have c1: "setClauses status_building = [(status, Some ''building'')]"
    by (simp add: setClauses_def status_building_def set_string_def set_string_ptr_def)
  have s: "fst (store_call example_store) = None"
    by (simp add: store_call_def example_store_def)
  have v: "version_row example_store ''v1'' = Some example_version"
    by (simp add: version_row_def example_store_def example_version_def)
  have n: "version_row example_store ''v9'' = None"
    by (simp add: version_row_def example_store_def example_version_def)
  show ?thesis
    using C9_update_version_fields [of no_updates example_store "''v1''" example_version]
      C9_update_version_fields [of status_building example_store "''v1''" example_version]
      C9_update_version_fields [of status_building example_store "''v9''" example_version]
      r0 r1 c1 s v n
    by auto
qed

text \<open>
  Claim C9, as stated, is refuted on its last part: with at least one recognized field the
  call does not always return the updated row. A field set that carries a legacy alias
  together with the field it maps onto (\<open>vercel_url\<close> and \<open>deploy_url\<close>) has two recognized
  fields, and \<open>UpdateVersion\<close> builds \<open>SET vercel_url = $1, vercel_url = $2\<close> from it, which
  the store rejects: on a stored row and a store without faults the call fails with
  \<open>failed to update version\<close> and nothing is written. So does a call with a recognized field
  and an id that no row has.
\<close>

theorem C9_alias_counterexample:
  "recognized_fields both_urls = [''vercel_url'', ''deploy_url'']
   \<and> update_query (setClauses both_urls)
        = ''UPDATE versions SET vercel_url = $1, vercel_url = $2 WHERE id = $3 RETURNING id, app_id, version_number, status, s3_code_path, vercel_url, vercel_deploy_id, build_log, error_message, created_at''
   \<and> version_row example_store ''v1'' = Some example_version
   \<and> faults example_store = []
   \<and> UpdateVersion example_store ''v1'' both_urls
        = (Inl (ErrorWrap ''failed to update version: '' ErrMultipleAssignments), example_store)
   \<and> recognized_fields status_building = [''status'']
   \<and> version_row example_store ''v9'' = None
   \<and> UpdateVersion example_store ''v9'' status_building
        = (Inl (ErrorWrap ''failed to update version: '' ErrNoRows), example_store)"
  by code_simp

lemma set_string_cols:
  "fst ` set (set_string c x) = (if (\<exists>s. x = Some (GoString s)) then {c} else {})"
  by (cases x rule: assert_string.cases) (simp_all add: set_string_def)

lemma set_string_ptr_cols:
  "fst ` set (set_string_ptr c x) = (if (\<exists>p. x = Some (GoStringPtr p)) then {c} else {})"
  by (cases x rule: assert_string_ptr.cases) (simp_all add: set_string_ptr_def)

text \<open>
  Claim C10. In version update the \<open>error_message\<close> entry of the update map is recognized
  only when its value is a pointer to a string; every other recognized field needs a plain
  string. An \<open>error_message\<close> entry with a plain string is ignored, so a call supplying
  only that fails with the no-fields error and leaves the store, and with it the row, as it
  was.
\<close>

theorem C10_error_message_needs_pointer:
  "(error_message \<in> fst ` set (setClauses updates))
      = (\<exists>p. updates ''error_message'' = Some (GoStringPtr p))
   \<and> (status \<in> fst ` set (setClauses updates)) = (\<exists>s. updates ''status'' = Some (GoString s))
   \<and> (s3_code_path \<in> fst ` set (setClauses updates))
      = ((\<exists>s. updates ''s3_code_path'' = Some (GoString s)) \<or> (\<exists>s. updates ''s3_key'' = Some (GoString s)))
   \<and> (vercel_url \<in> fst ` set (setClauses updates))
      = ((\<exists>s. updates ''vercel_url'' = Some (GoString s)) \<or> (\<exists>s. updates ''deploy_url'' = Some (GoString s)))
   \<and> (vercel_deploy_id \<in> fst ` set (setClauses updates))
      = (\<exists>s. updates ''vercel_deploy_id'' = Some (GoString s))
   \<and> (build_log \<in> fst ` set (setClauses updates)) = (\<exists>s. updates ''build_log'' = Some (GoString s))
   \<and> setClauses [''error_message'' \<mapsto> GoString msg] = []
   \<and> UpdateVersion db versionID [''error_message'' \<mapsto> GoString msg]
        = (Inl (ErrorNew ''no fields to update''), db)"
proof -
  have cols: "fst ` set (setClauses updates) =
      (if (\<exists>s. updates ''status'' = Some (GoString s)) then {status} else {})
      \<union> (if (\<exists>s. updates ''s3_code_path'' = Some (GoString s)) then {s3_code_path} else {})
      \<union> (if (\<exists>s. updates ''vercel_url'' = Some (GoString s)) then {vercel_url} else {})
      \<union> (if (\<exists>s. updates ''vercel_deploy_id'' = Some (GoString s)) then {vercel_deploy_id} else {})
      \<union> (if (\<exists>s. updates ''build_log'' = Some (GoString s)) then {build_log} else {})
      \<union> (if (\<exists>p. updates ''error_message'' = Some (GoStringPtr p)) then {error_message} else {})
      \<union> (if (\<exists>s. updates ''deploy_url'' = Some (GoString s)) then {vercel_url} else {})
      \<union> (if (\<exists>s. updates ''s3_key'' = Some (GoString s)) then {s3_code_path} else {})"
    by (simp only: setClauses_def set_append image_Un set_string_cols set_string_ptr_cols Un_assoc)
  have none: "setClauses [''error_message'' \<mapsto> GoString msg] = []"
    by (simp add: setClauses_def set_string_def set_string_ptr_def)
  have upd: "UpdateVersion db versionID [''error_message'' \<mapsto> GoString msg]
        = (Inl (ErrorNew ''no fields to update''), db)"
    by (simp add: UpdateVersion_def none)
  show ?thesis
    unfolding cols using none upd by auto
qed

section \<open>Promotion\<close>

lemma non_empty_None_iff: "(non_empty p = None) = (p = None \<or> p = Some [])"
  by (simp add: non_empty_def split: option.splits)

lemma non_empty_Some_iff: "(non_empty p = Some s) = (p = Some s \<and> s \<noteq> [])"
  by (auto simp add: non_empty_def split: option.splits)

lemma GetVersion_healthy:
  "faults db = [] \<Longrightarrow>
   GetVersion db versionID =
     (case version_row db versionID of
        None \<Rightarrow> (Inl (ErrorWrap ''version not found: '' ErrNoRows), db)
      | Some version \<Rightarrow> (Inr version, db))"
  by (simp add: GetVersion_def select_version_def store_exec_healthy split: option.splits)

lemma GetVersion_Inr:
  "GetVersion db versionID = (Inr version, db1) \<Longrightarrow>
   version_row db versionID = Some version \<and> db1 = snd (store_call db)"
  by (cases "store_call db")
     (auto simp add: GetVersion_def select_version_def store_exec_def version_row_def
        store_call_def split: option.splits list.splits)

lemma select_vercel_project_id_healthy:
  "faults db = [] \<Longrightarrow>
   select_vercel_project_id db appID =
     (case app_row db appID of
        None \<Rightarrow> (Inl ErrNoRows, db)
      | Some app \<Rightarrow> (Inr (a_VercelProjectID app), db))"
  by (simp add: select_vercel_project_id_def store_exec_healthy)

lemma select_vercel_project_id_Inr:
  "select_vercel_project_id db appID = (Inr p, db1) \<Longrightarrow>
   (\<exists>app. app_row db appID = Some app \<and> a_VercelProjectID app = p)"
  by (cases "store_call db")
     (auto simp add: select_vercel_project_id_def store_exec_def app_row_def
        store_call_def split: option.splits list.splits)

lemma PromoteVersion_calls:
  assumes "snd (snd (PromoteVersion vercel db now versionID)) \<noteq> []"
  shows "\<exists>version app deploymentID projectID.
           version_row db versionID = Some version \<and> v_Status version = ''completed''
         \<and> v_VercelDeployID version = Some deploymentID \<and> deploymentID \<noteq> []
         \<and> app_row db (v_AppID version) = Some app
         \<and> a_VercelProjectID app = Some projectID \<and> projectID \<noteq> []
         \<and> snd (snd (PromoteVersion vercel db now versionID)) = [(projectID, deploymentID)]"
proof (cases "GetVersion db versionID")
  case (Pair r db1)
  show ?thesis
  proof (cases r)
    case (Inl err)
    with Pair assms show ?thesis by (simp add: PromoteVersion_def)
  next
    case (Inr version)
    with Pair have row: "version_row db versionID = Some version" and db1: "db1 = snd (store_call db)"
      using GetVersion_Inr by blast+
    show ?thesis
    proof (cases "v_Status version = ''completed''")
      case False
      with Pair Inr assms show ?thesis by (simp add: PromoteVersion_def)
    next
      case completed: True
      show ?thesis
      proof (cases "non_empty (v_VercelDeployID version)")
        case None
        with Pair Inr completed assms show ?thesis by (simp add: PromoteVersion_def)
      next
        case (Some deploymentID)
        then have dep: "v_VercelDeployID version = Some deploymentID" "deploymentID \<noteq> []"
          by (simp_all add: non_empty_Some_iff)
        obtain q db2 where sel: "select_vercel_project_id db1 (v_AppID version) = (q, db2)"
          by (cases "select_vercel_project_id db1 (v_AppID version)")
        show ?thesis
        proof (cases q)
          case (Inl err)
          with Pair Inr completed Some sel assms show ?thesis by (simp add: PromoteVersion_def)
        next
          case (Inr p)
          with sel obtain app where app: "app_row db1 (v_AppID version) = Some app"
              "a_VercelProjectID app = p"
            using select_vercel_project_id_Inr by blast
          then have app': "app_row db (v_AppID version) = Some app"
            by (simp add: db1 app_row_store_call)
          show ?thesis
          proof (cases "non_empty p")
            case None
            with Pair \<open>r = Inr version\<close> completed Some sel Inr assms show ?thesis
              by (simp add: PromoteVersion_def)
          next
            case (Some projectID)
            then have proj: "a_VercelProjectID app = Some projectID" "projectID \<noteq> []"
              using app by (simp_all add: non_empty_Some_iff)
            have "snd (snd (PromoteVersion vercel db now versionID)) = [(projectID, deploymentID)]"
              using Pair \<open>r = Inr version\<close> completed \<open>non_empty (v_VercelDeployID version) = Some deploymentID\<close>
                sel Inr Some
              by (simp add: PromoteVersion_def split: option.splits prod.splits sum.splits)
            with row completed dep app' proj show ?thesis by blast
          qed
        qed
      qed
    qed
  qed
qed


lemma find_set_prod_version:
  "find (\<lambda>a. a_ID a = i) (set_prod_version i n now as)
     = map_option (\<lambda>a. a\<lparr>a_ProdVersion := Some n, a_UpdatedAt := now\<rparr>) (find (\<lambda>a. a_ID a = i) as)"
  by (induction as) (simp_all add: set_prod_version_def)

lemma update_version_found:
  "faults db = [] \<Longrightarrow> distinct (map fst clauses) \<Longrightarrow> version_row db versionID = Some old \<Longrightarrow>
   update_version db clauses versionID
     = (Inr (fold assign clauses old), db\<lparr>versions := update_rows clauses versionID (versions db)\<rparr>)"
  by (simp add: update_version_def store_exec_healthy Let_def version_row_def find_update_rows)

lemma setClauses_promoted:
  "setClauses [''status'' \<mapsto> GoString ''promoted''] = [(status, Some ''promoted'')]"
  by (simp add: setClauses_def set_string_def set_string_ptr_def)

lemma PromoteVersion_missing:
  "faults db = [] \<Longrightarrow> version_row db versionID = None \<Longrightarrow>
   PromoteVersion vercel db now versionID
     = (Some (ErrorWrap ''version not found: '' ErrNoRows), db, [])"
  by (simp add: PromoteVersion_def GetVersion_healthy)

lemma PromoteVersion_status:
  "faults db = [] \<Longrightarrow> version_row db versionID = Some version \<Longrightarrow>
   v_Status version \<noteq> ''completed'' \<Longrightarrow>
   PromoteVersion vercel db now versionID = (Some (not_completed_error (v_Status version)), db, [])"
  by (simp add: PromoteVersion_def GetVersion_healthy)

lemma PromoteVersion_no_deployment:
  "faults db = [] \<Longrightarrow> version_row db versionID = Some version \<Longrightarrow>
   v_Status version = ''completed'' \<Longrightarrow>
   v_VercelDeployID version = None \<or> v_VercelDeployID version = Some [] \<Longrightarrow>
   PromoteVersion vercel db now versionID
     = (Some (ErrorNew ''version has no vercel deployment ID''), db, [])"
  by (simp add: PromoteVersion_def GetVersion_healthy non_empty_None_iff [symmetric])

lemma PromoteVersion_no_project:
  assumes "faults db = []" "version_row db versionID = Some version"
    "v_Status version = ''completed''"
    "v_VercelDeployID version = Some deploymentID" "deploymentID \<noteq> []"
    "app_row db (v_AppID version) = Some app"
    "a_VercelProjectID app = None \<or> a_VercelProjectID app = Some []"
  shows "PromoteVersion vercel db now versionID
           = (Some (ErrorNew ''app has no vercel project ID''), db, [])"
proof -
  have dep: "non_empty (v_VercelDeployID version) = Some deploymentID"
    using assms by (simp add: non_empty_Some_iff)
  have proj: "non_empty (a_VercelProjectID app) = None"
    using assms by (simp add: non_empty_None_iff)
  show ?thesis
    using assms(1,2,3,6) dep proj
    by (simp add: PromoteVersion_def GetVersion_healthy select_vercel_project_id_healthy)
qed

lemma PromoteVersion_platform_error:
  "faults db = [] \<Longrightarrow> version_row db versionID = Some version \<Longrightarrow>
   v_Status version = ''completed'' \<Longrightarrow>
   v_VercelDeployID version = Some deploymentID \<Longrightarrow> deploymentID \<noteq> [] \<Longrightarrow>
   app_row db (v_AppID version) = Some app \<Longrightarrow>
   a_VercelProjectID app = Some projectID \<Longrightarrow> projectID \<noteq> [] \<Longrightarrow>
   PromoteDeployment (vercel projectID deploymentID) = Some err \<Longrightarrow>
   PromoteVersion vercel db now versionID
     = (Some (ErrorWrap ''failed to promote deployment on Vercel: '' err), db,
        [(projectID, deploymentID)])"
  by (simp add: PromoteVersion_def GetVersion_healthy select_vercel_project_id_healthy non_empty_def)

lemma PromoteVersion_success:
  assumes "faults db = []" "version_row db versionID = Some version"
    "v_Status version = ''completed''"
    "v_VercelDeployID version = Some deploymentID" "deploymentID \<noteq> []"
    "app_row db (v_AppID version) = Some app"
    "a_VercelProjectID app = Some projectID" "projectID \<noteq> []"
    "PromoteDeployment (vercel projectID deploymentID) = None"
  shows "PromoteVersion vercel db now versionID
     = (None,
        db\<lparr>apps := set_prod_version (v_AppID version) (v_VersionNumber version) now (apps db),
            versions := update_rows [(status, Some ''promoted'')] versionID (versions db)\<rparr>,
        [(projectID, deploymentID)])"
proof -
  define db3 where
    "db3 = db\<lparr>apps := set_prod_version (v_AppID version) (v_VersionNumber version) now (apps db)\<rparr>"
  have f3: "faults db3 = []" and r3: "version_row db3 versionID = Some version"
    using assms by (simp_all add: db3_def version_row_def)
  have upd: "update_prod_version db (v_VersionNumber version) now (v_AppID version) = (Inr (), db3)"
    using assms by (simp add: update_prod_version_def store_exec_healthy db3_def)
  have "update_version db3 [(status, Some ''promoted'')] versionID
      = (Inr (fold assign [(status, Some ''promoted'')] version),
         db3\<lparr>versions := update_rows [(status, Some ''promoted'')] versionID (versions db3)\<rparr>)"
    using f3 r3 by (intro update_version_found) simp_all
  then have uv: "UpdateVersion db3 versionID [''status'' \<mapsto> GoString ''promoted'']
      = (Inr (fold assign [(status, Some ''promoted'')] version),
         db3\<lparr>versions := update_rows [(status, Some ''promoted'')] versionID (versions db3)\<rparr>)"
    by (simp add: UpdateVersion_def setClauses_promoted)
  show ?thesis
    using assms upd uv
    by (simp add: PromoteVersion_def GetVersion_healthy select_vercel_project_id_healthy
        non_empty_def db3_def)
qed

lemma precondition_errors_distinct:
  "distinct [ErrorWrap ''version not found: '' ErrNoRows, not_completed_error st,
             ErrorNew ''version has no vercel deployment ID'',
             ErrorNew ''app has no vercel project ID'']"
  by (simp add: not_completed_error_def)

lemma precondition_texts_distinct:
  "distinct (map err_text [ErrorWrap ''version not found: '' ErrNoRows, not_completed_error st,
             ErrorNew ''version has no vercel deployment ID'',
             ErrorNew ''app has no vercel project ID''])"
  by (simp add: not_completed_error_def ErrNoRows_def)


text \<open>
  Claim C4. \<open>PromoteVersion\<close> checks its preconditions in order: the version exists, its
  status is \<open>completed\<close>, it carries a non-empty deployment identifier, the owning
  application carries a non-empty project identifier. Whatever the store's faults, the
  platform is called only if all four hold. On a store that executes every statement, the
  first precondition that fails decides the error, whatever the later ones are, the four
  errors and their messages are pairwise distinct, the store is left as it was and the
  platform is not called; a status other than \<open>completed\<close>, \<open>promoted\<close> included, is
  rejected so.
\<close>

theorem C4_promotion_preconditions:
  "(snd (snd (PromoteVersion vercel db now versionID)) \<noteq> [] \<longrightarrow>
      (\<exists>version app deploymentID projectID.
          version_row db versionID = Some version \<and> v_Status version = ''completed''
        \<and> v_VercelDeployID version = Some deploymentID \<and> deploymentID \<noteq> []
        \<and> app_row db (v_AppID version) = Some app
        \<and> a_VercelProjectID app = Some projectID \<and> projectID \<noteq> []))
   \<and> (faults db = [] \<and> version_row db versionID = None \<longrightarrow>
        PromoteVersion vercel db now versionID
          = (Some (ErrorWrap ''version not found: '' ErrNoRows), db, []))
   \<and> (faults db = [] \<and> version_row db versionID = Some v \<and> v_Status v \<noteq> ''completed'' \<longrightarrow>
        PromoteVersion vercel db now versionID = (Some (not_completed_error (v_Status v)), db, []))
   \<and> (faults db = [] \<and> version_row db versionID = Some v \<and> v_Status v = ''completed''
        \<and> (v_VercelDeployID v = None \<or> v_VercelDeployID v = Some []) \<longrightarrow>
        PromoteVersion vercel db now versionID
          = (Some (ErrorNew ''version has no vercel deployment ID''), db, []))
   \<and> (faults db = [] \<and> version_row db versionID = Some v \<and> v_Status v = ''completed''
        \<and> v_VercelDeployID v = Some d \<and> d \<noteq> [] \<and> app_row db (v_AppID v) = Some a
        \<and> (a_VercelProjectID a = None \<or> a_VercelProjectID a = Some []) \<longrightarrow>
        PromoteVersion vercel db now versionID
          = (Some (ErrorNew ''app has no vercel project ID''), db, []))
   \<and> distinct [ErrorWrap ''version not found: '' ErrNoRows, not_completed_error st,
                 ErrorNew ''version has no vercel deployment ID'',
                 ErrorNew ''app has no vercel project ID'']
   \<and> distinct (map err_text
                 [ErrorWrap ''version not found: '' ErrNoRows, not_completed_error st,
                  ErrorNew ''version has no vercel deployment ID'',
                  ErrorNew ''app has no vercel project ID''])"
proof (intro conjI impI)
  assume "snd (snd (PromoteVersion vercel db now versionID)) \<noteq> []"
  from PromoteVersion_calls [OF this]
  show "\<exists>version app deploymentID projectID.
          version_row db versionID = Some version \<and> v_Status version = ''completed''
        \<and> v_VercelDeployID version = Some deploymentID \<and> deploymentID \<noteq> []
        \<and> app_row db (v_AppID version) = Some app
        \<and> a_VercelProjectID app = Some projectID \<and> projectID \<noteq> []"
    by blast
next
  assume "faults db = [] \<and> version_row db versionID = None"
  then show "PromoteVersion vercel db now versionID
          = (Some (ErrorWrap ''version not found: '' ErrNoRows), db, [])"
    by (simp add: PromoteVersion_missing)
next
  assume "faults db = [] \<and> version_row db versionID = Some v \<and> v_Status v \<noteq> ''completed''"
  then show "PromoteVersion vercel db now versionID = (Some (not_completed_error (v_Status v)), db, [])"
    by (simp add: PromoteVersion_status)
next
  assume "faults db = [] \<and> version_row db versionID = Some v \<and> v_Status v = ''completed''
        \<and> (v_VercelDeployID v = None \<or> v_VercelDeployID v = Some [])"
  then have "faults db = []" "version_row db versionID = Some v" "v_Status v = ''completed''"
      "v_VercelDeployID v = None \<or> v_VercelDeployID v = Some []"
    by simp_all
  then show "PromoteVersion vercel db now versionID
          = (Some (ErrorNew ''version has no vercel deployment ID''), db, [])"
    by (rule PromoteVersion_no_deployment)
next
  assume "faults db = [] \<and> version_row db versionID = Some v \<and> v_Status v = ''completed''
        \<and> v_VercelDeployID v = Some d \<and> d \<noteq> [] \<and> app_row db (v_AppID v) = Some a
        \<and> (a_VercelProjectID a = None \<or> a_VercelProjectID a = Some [])"
  then have "faults db = []" "version_row db versionID = Some v" "v_Status v = ''completed''"
      "v_VercelDeployID v = Some d" "d \<noteq> []" "app_row db (v_AppID v) = Some a"
      "a_VercelProjectID a = None \<or> a_VercelProjectID a = Some []"
    by simp_all
  then show "PromoteVersion vercel db now versionID
          = (Some (ErrorNew ''app has no vercel project ID''), db, [])"
    by (rule PromoteVersion_no_project)
next
  show "distinct [ErrorWrap ''version not found: '' ErrNoRows, not_completed_error st,
                 ErrorNew ''version has no vercel deployment ID'',
                 ErrorNew ''app has no vercel project ID'']"
    by (rule precondition_errors_distinct)
next
  show "distinct (map err_text
                 [ErrorWrap ''version not found: '' ErrNoRows, not_completed_error st,
                  ErrorNew ''version has no vercel deployment ID'',
                  ErrorNew ''app has no vercel project ID''])"
    by (rule precondition_texts_distinct)
qed

lemma example_rows:
  "faults example_store = []"
  "version_row example_store ''v1'' = Some example_version"
  "version_row example_store ''v9'' = None"
  "app_row example_store ''a1'' = Some example_app"
  "v_Status example_version = ''completed''"
  "v_AppID example_version = ''a1''"
  "v_VersionNumber example_version = 3"
  "v_VercelDeployID example_version = Some ''dpl_1''"
  "a_VercelProjectID example_app = Some ''prj_1''"
  by (simp_all add: example_store_def example_version_def example_app_def version_row_def
      app_row_def)

lemma example_outcomes:
  "PromoteDeployment (platform_accepts p d) = None"
  "PromoteDeployment (platform_already p d) = None"
  "PromoteDeployment (platform_down p d) = Some (ErrorNew ''vercel promotion failed (status 500): boom'')"
  by code_simp+

theorem C4_promotion_preconditions_witness:
  "snd (snd (PromoteVersion platform_accepts example_store 7 ''v1'')) \<noteq> []
   \<and> version_row example_store ''v1'' = Some example_version
   \<and> v_Status example_version = ''completed''
   \<and> PromoteVersion platform_accepts example_store 7 ''v9''
        = (Some (ErrorWrap ''version not found: '' ErrNoRows), example_store, [])
   \<and> PromoteVersion platform_accepts promoted_store 7 ''v1''
        = (Some (not_completed_error ''promoted''), promoted_store, [])
   \<and> PromoteVersion platform_accepts no_deployment_store 7 ''v1''
        = (Some (ErrorNew ''version has no vercel deployment ID''), no_deployment_store, [])
   \<and> PromoteVersion platform_accepts no_project_store 7 ''v1''
        = (Some (ErrorNew ''app has no vercel project ID''), no_project_store, [])"
proof -
  have calls: "snd (snd (PromoteVersion platform_accepts example_store 7 ''v1'')) \<noteq> []"
    using PromoteVersion_success [of example_store "''v1''" example_version "''dpl_1''" example_app
        "''prj_1''" platform_accepts 7]
    by (simp add: example_rows example_outcomes)
  have promoted: "faults promoted_store = []"
      "version_row promoted_store ''v1'' = Some (example_version\<lparr>v_Status := ''promoted''\<rparr>)"
    by (simp_all add: promoted_store_def example_store_def example_version_def version_row_def)
  have no_dep: "faults no_deployment_store = []"
      "version_row no_deployment_store ''v1'' = Some (example_version\<lparr>v_VercelDeployID := Some []\<rparr>)"
    by (simp_all add: no_deployment_store_def example_store_def example_version_def version_row_def)
  have no_proj: "faults no_project_store = []"
      "version_row no_project_store ''v1'' = Some example_version"
      "app_row no_project_store ''a1'' = Some (example_app\<lparr>a_VercelProjectID := None\<rparr>)"
    by (simp_all add: no_project_store_def example_store_def example_version_def example_app_def
        version_row_def app_row_def)
  note c = C4_promotion_preconditions
  from c [of platform_accepts example_store 7 "''v1''"] calls
  have a: "version_row example_store ''v1'' = Some example_version
      \<and> v_Status example_version = ''completed''"
    by (simp add: example_rows)
  from c [of platform_accepts example_store 7 "''v9''"]
  have b1: "PromoteVersion platform_accepts example_store 7 ''v9''
        = (Some (ErrorWrap ''version not found: '' ErrNoRows), example_store, [])"
    by (simp add: example_rows)
  from c [of platform_accepts promoted_store 7 "''v1''" "example_version\<lparr>v_Status := ''promoted''\<rparr>"]
  have b2: "PromoteVersion platform_accepts promoted_store 7 ''v1''
        = (Some (not_completed_error ''promoted''), promoted_store, [])"
    by (simp add: promoted)
  from c [of platform_accepts no_deployment_store 7 "''v1''"
        "example_version\<lparr>v_VercelDeployID := Some []\<rparr>"]
  have b3: "PromoteVersion platform_accepts no_deployment_store 7 ''v1''
        = (Some (ErrorNew ''version has no vercel deployment ID''), no_deployment_store, [])"
    by (simp add: no_dep example_rows)
  from c [of platform_accepts no_project_store 7 "''v1''" example_version "''dpl_1''"
        "example_app\<lparr>a_VercelProjectID := None\<rparr>"]
  have b4: "PromoteVersion platform_accepts no_project_store 7 ''v1''
        = (Some (ErrorNew ''app has no vercel project ID''), no_project_store, [])"
    by (simp add: no_proj example_rows)
  from calls a b1 b2 b3 b4 show ?thesis by simp
qed


text \<open>
  Claim C1, amended. For a version whose status is \<open>completed\<close>, with a non-empty
  deployment identifier and an owning application with a non-empty project identifier, on
  a store that executes every statement and a platform that accepts the promotion: the
  first \<open>PromoteVersion\<close> succeeds with one platform call, sets the application's
  \<open>prod_version\<close> to the version's number and the version's status to \<open>promoted\<close>; a second
  \<open>PromoteVersion\<close> on the same version is rejected with the status error, without a
  platform call and without a change to the store, so \<open>prod_version\<close> still equals the
  version's number.
\<close>

theorem C1_promote_twice:
  assumes "faults db = []" and "version_row db versionID = Some version"
    and "v_Status version = ''completed''"
    and "v_VercelDeployID version = Some deploymentID" and "deploymentID \<noteq> []"
    and "app_row db (v_AppID version) = Some app"
    and "a_VercelProjectID app = Some projectID" and "projectID \<noteq> []"
    and "PromoteDeployment (vercel projectID deploymentID) = None"
  shows "\<exists>db1 app1.
           PromoteVersion vercel db now versionID = (None, db1, [(projectID, deploymentID)])
         \<and> app_row db1 (v_AppID version) = Some app1
         \<and> a_ProdVersion app1 = Some (v_VersionNumber version)
         \<and> version_row db1 versionID = Some (version\<lparr>v_Status := ''promoted''\<rparr>)
         \<and> PromoteVersion vercel2 db1 now2 versionID
               = (Some (not_completed_error ''promoted''), db1, [])"
proof -
  define db1 where
    "db1 = db\<lparr>apps := set_prod_version (v_AppID version) (v_VersionNumber version) now (apps db),
               versions := update_rows [(status, Some ''promoted'')] versionID (versions db)\<rparr>"
  define app1 where "app1 = app\<lparr>a_ProdVersion := Some (v_VersionNumber version), a_UpdatedAt := now\<rparr>"
  have first: "PromoteVersion vercel db now versionID = (None, db1, [(projectID, deploymentID)])"
    unfolding db1_def using assms by (rule PromoteVersion_success)
  have f1: "faults db1 = []"
    using assms(1) by (simp add: db1_def)
  have app1: "app_row db1 (v_AppID version) = Some app1"
    using assms(6) by (simp add: db1_def app1_def app_row_def find_set_prod_version)
  have row1: "version_row db1 versionID = Some (version\<lparr>v_Status := ''promoted''\<rparr>)"
    using assms(2) by (simp add: db1_def version_row_def find_update_rows)
  have "PromoteVersion vercel2 db1 now2 versionID
      = (Some (not_completed_error (v_Status (version\<lparr>v_Status := ''promoted''\<rparr>))), db1, [])"
    using f1 row1 by (rule PromoteVersion_status) simp
  then have second: "PromoteVersion vercel2 db1 now2 versionID
      = (Some (not_completed_error ''promoted''), db1, [])"
    by simp
  from first app1 row1 second show ?thesis
    by (auto simp add: app1_def)
qed

theorem C1_promote_twice_witness:
  "faults example_store = []
   \<and> version_row example_store ''v1'' = Some example_version
   \<and> v_Status example_version = ''completed''
   \<and> v_VercelDeployID example_version = Some ''dpl_1''
   \<and> app_row example_store (v_AppID example_version) = Some example_app
   \<and> a_VercelProjectID example_app = Some ''prj_1''
   \<and> PromoteDeployment (platform_accepts ''prj_1'' ''dpl_1'') = None
   \<and> fst (PromoteVersion platform_accepts example_store 7 ''v1'') = None
   \<and> snd (snd (PromoteVersion platform_accepts example_store 7 ''v1'')) = [(''prj_1'', ''dpl_1'')]
   \<and> fst (PromoteVersion platform_already
             (fst (snd (PromoteVersion platform_accepts example_store 7 ''v1''))) 8 ''v1'')
        = Some (not_completed_error ''promoted'')"
proof -
  from C1_promote_twice [where db = example_store and versionID = "''v1''"
      and version = example_version and deploymentID = "''dpl_1''" and app = example_app
      and projectID = "''prj_1''" and vercel = platform_accepts and ?vercel2.0 = platform_already
      and now = 7 and ?now2.0 = 8]
  obtain db1 where
    "PromoteVersion platform_accepts example_store 7 ''v1'' = (None, db1, [(''prj_1'', ''dpl_1'')])"
    "PromoteVersion platform_already db1 8 ''v1'' = (Some (not_completed_error ''promoted''), db1, [])"
    by (auto simp add: example_rows example_outcomes)
  then show ?thesis
    by (simp add: example_rows example_outcomes)
qed

text \<open>
  Claim C1, as stated, is refuted: the second of two promotions in succession does not
  succeed. The first one leaves the version \<open>promoted\<close>, and \<open>PromoteVersion\<close> rejects every
  status other than \<open>completed\<close> before it calls the platform, even when the platform would
  answer that the deployment is already the production deployment.
\<close>

theorem C1_second_promotion_counterexample:
  "version_row example_store ''v1'' = Some example_version
   \<and> v_Status example_version = ''completed''
   \<and> v_VercelDeployID example_version = Some ''dpl_1''
   \<and> app_row example_store (v_AppID example_version) = Some example_app
   \<and> a_VercelProjectID example_app = Some ''prj_1''
   \<and> fst (PromoteVersion platform_accepts example_store 7 ''v1'') = None
   \<and> PromoteDeployment (platform_already ''prj_1'' ''dpl_1'') = None
   \<and> fst (PromoteVersion platform_already
             (fst (snd (PromoteVersion platform_accepts example_store 7 ''v1''))) 8 ''v1'')
        = Some (not_completed_error ''promoted'')
   \<and> snd (snd (PromoteVersion platform_already
             (fst (snd (PromoteVersion platform_accepts example_store 7 ''v1''))) 8 ''v1'')) = []"
  by code_simp

lemma PromoteDeployment_already:
  "strings_Contains body ''already the current production deployment'' \<Longrightarrow>
   PromoteDeployment (Response 409 body) = None"
  by (simp add: PromoteDeployment_def)

lemma PromoteDeployment_other:
  "StatusCode \<noteq> 201 \<Longrightarrow> StatusCode \<noteq> 202 \<Longrightarrow>
   \<not> (StatusCode = 409 \<and> strings_Contains body ''already the current production deployment'') \<Longrightarrow>
   \<exists>err. PromoteDeployment (Response StatusCode body) = Some err"
  by (simp add: PromoteDeployment_def)

text \<open>
  Claim C6, amended. \<open>PromoteDeployment\<close> treats the platform's conflict response (409)
  that says the deployment is already the current production deployment as success; every
  other response whose status is neither 201 nor 202 yields an error, and so does a request
  that fails. When the four preconditions hold, \<open>PromoteVersion\<close> surfaces that error to its
  caller wrapped: the returned error has the platform error as its cause and the message
  \<open>failed to promote deployment on Vercel: \<close> followed by the platform error's message. The
  store is left as it was.
\<close>

theorem C6_platform_errors:
  "(strings_Contains body ''already the current production deployment'' \<longrightarrow>
      PromoteDeployment (Response 409 body) = None)
   \<and> (StatusCode \<noteq> 201 \<and> StatusCode \<noteq> 202
        \<and> \<not> (StatusCode = 409 \<and> strings_Contains body ''already the current production deployment'') \<longrightarrow>
      (\<exists>err. PromoteDeployment (Response StatusCode body) = Some err))
   \<and> PromoteDeployment (RequestError e) = Some e
   \<and> (faults db = [] \<and> version_row db versionID = Some version \<and> v_Status version = ''completed''
        \<and> v_VercelDeployID version = Some deploymentID \<and> deploymentID \<noteq> []
        \<and> app_row db (v_AppID version) = Some app
        \<and> a_VercelProjectID app = Some projectID \<and> projectID \<noteq> []
        \<and> PromoteDeployment (vercel projectID deploymentID) = Some err \<longrightarrow>
      PromoteVersion vercel db now versionID
        = (Some (ErrorWrap ''failed to promote deployment on Vercel: '' err), db,
           [(projectID, deploymentID)])
      \<and> err_text (ErrorWrap ''failed to promote deployment on Vercel: '' err)
          = ''failed to promote deployment on Vercel: '' @ err_text err)"
proof (intro conjI impI)
  assume "strings_Contains body ''already the current production deployment''"
  then show "PromoteDeployment (Response 409 body) = None"
    by (rule PromoteDeployment_already)
next
  assume "StatusCode \<noteq> 201 \<and> StatusCode \<noteq> 202
        \<and> \<not> (StatusCode = 409 \<and> strings_Contains body ''already the current production deployment'')"
  then show "\<exists>err. PromoteDeployment (Response StatusCode body) = Some err"
    by (intro PromoteDeployment_other) simp_all
next
  show "PromoteDeployment (RequestError e) = Some e"
    by (simp add: PromoteDeployment_def)
next
  assume "faults db = [] \<and> version_row db versionID = Some version \<and> v_Status version = ''completed''
        \<and> v_VercelDeployID version = Some deploymentID \<and> deploymentID \<noteq> []
        \<and> app_row db (v_AppID version) = Some app
        \<and> a_VercelProjectID app = Some projectID \<and> projectID \<noteq> []
        \<and> PromoteDeployment (vercel projectID deploymentID) = Some err"
  then have "faults db = []" "version_row db versionID = Some version"
      "v_Status version = ''completed''"
      "v_VercelDeployID version = Some deploymentID" "deploymentID \<noteq> []"
      "app_row db (v_AppID version) = Some app"
      "a_VercelProjectID app = Some projectID" "projectID \<noteq> []"
      "PromoteDeployment (vercel projectID deploymentID) = Some err"
    by simp_all
  then show "PromoteVersion vercel db now versionID
        = (Some (ErrorWrap ''failed to promote deployment on Vercel: '' err), db,
           [(projectID, deploymentID)])"
    by (rule PromoteVersion_platform_error)
next
  show "err_text (ErrorWrap ''failed to promote deployment on Vercel: '' err)
          = ''failed to promote deployment on Vercel: '' @ err_text err"
    by simp
qed

theorem C6_platform_errors_witness:
  "strings_Contains ''Deployment is already the current production deployment''
      ''already the current production deployment''
   \<and> PromoteDeployment (Response 409 ''Deployment is already the current production deployment'') = None
   \<and> PromoteDeployment (Response 409 ''conflict'')
        = Some (ErrorNew ''vercel promotion conflict (status 409): conflict'')
   \<and> PromoteDeployment (platform_down ''prj_1'' ''dpl_1'')
        = Some (ErrorNew ''vercel promotion failed (status 500): boom'')
   \<and> PromoteVersion platform_down example_store 7 ''v1''
        = (Some (ErrorWrap ''failed to promote deployment on Vercel: ''
                  (ErrorNew ''vercel promotion failed (status 500): boom'')),
           example_store, [(''prj_1'', ''dpl_1'')])"
proof -
  have c: "strings_Contains ''Deployment is already the current production deployment''
      ''already the current production deployment''"
    by code_simp
  have k: "\<not> strings_Contains ''conflict'' ''already the current production deployment''"
    by code_simp
  have conflict: "PromoteDeployment (Response 409 ''conflict'')
        = Some (ErrorNew ''vercel promotion conflict (status 409): conflict'')"
    by code_simp
  note t = C6_platform_errors
  from t [of "''Deployment is already the current production deployment''"] c
  have a: "PromoteDeployment (Response 409 ''Deployment is already the current production deployment'') = None"
    by simp
  from t [of "''conflict''" 409] k
  have "\<exists>err. PromoteDeployment (Response 409 ''conflict'') = Some err"
    by simp
  from t [of _ _ _ example_store "''v1''" example_version "''dpl_1''" example_app "''prj_1''"
      platform_down "ErrorNew ''vercel promotion failed (status 500): boom''" 7]
  have b: "PromoteVersion platform_down example_store 7 ''v1''
        = (Some (ErrorWrap ''failed to promote deployment on Vercel: ''
                  (ErrorNew ''vercel promotion failed (status 500): boom'')),
           example_store, [(''prj_1'', ''dpl_1'')])"
    by (simp add: example_rows example_outcomes)
  from c a conflict b show ?thesis
    by (simp add: example_outcomes)
qed

text \<open>
  Claim C6, as stated, is refuted on the word verbatim: for a platform that answers 500 the
  error \<open>PromoteVersion\<close> returns is not the error of \<open>PromoteDeployment\<close>, and its message is
  a different text.
\<close>

theorem C6_not_verbatim_counterexample:
  "PromoteDeployment (platform_down ''prj_1'' ''dpl_1'')
     = Some (ErrorNew ''vercel promotion failed (status 500): boom'')
   \<and> fst (PromoteVersion platform_down example_store 7 ''v1'')
     = Some (ErrorWrap ''failed to promote deployment on Vercel: ''
               (ErrorNew ''vercel promotion failed (status 500): boom''))
   \<and> fst (PromoteVersion platform_down example_store 7 ''v1'')
     \<noteq> PromoteDeployment (platform_down ''prj_1'' ''dpl_1'')
   \<and> map_option err_text (fst (PromoteVersion platform_down example_store 7 ''v1''))
     = Some ''failed to promote deployment on Vercel: vercel promotion failed (status 500): boom''
   \<and> map_option err_text (PromoteDeployment (platform_down ''prj_1'' ''dpl_1''))
     = Some ''vercel promotion failed (status 500): boom''"
  by code_simp

section \<open>Application setup\<close>

lemma resolve_config_logs: "list_all is_log (snd (resolve_config extracted))"
  by (cases extracted) (simp_all add: resolve_config_def)

lemma store_call_faults: "faults (snd (store_call db)) = tl (faults db)"
  by (simp add: store_call_def split: list.splits)

text \<open>
  Claim C3, amended. In the setup pipeline, if the update that writes the resolved name,
  display name, category, color and hostname to the store fails, the failure is logged and
  the pipeline ends there: owner-email resolution, registry sync and logo generation are
  not executed. The effects are the log lines up to the failure and nothing else, no table
  changes, and the failed update is the only call made on the store.
\<close>

theorem C3_update_failure_stops_setup:
  assumes "fst (store_call db) = Some err"
  shows "\<exists>db1 effects.
           extractConfigAndSetupApp U ExtractAppConfig run_cmd db now appID userID description
             = (db1, effects)
         \<and> effects =
             [Log (''[AI Setup] Starting async config extraction for app '' @ appID)]
             @ snd (resolve_config (ExtractAppConfig description))
             @ [Log (''[AI Setup] Extracted config for app '' @ appID @ '': name=''
                     @ AppName (fst (resolve_config (ExtractAppConfig description)))
                     @ '', category='' @ Category (fst (resolve_config (ExtractAppConfig description)))
                     @ '', color='' @ ColorScheme (fst (resolve_config (ExtractAppConfig description)))),
                Log (''[AI Setup] Failed to update PostgreSQL with AI config: '' @ err_text err)]
         \<and> list_all is_log effects
         \<and> apps db1 = apps db \<and> versions db1 = versions db \<and> users db1 = users db
         \<and> faults db1 = tl (faults db)"
proof -
  obtain appConfig log2 where rc: "resolve_config (ExtractAppConfig description) = (appConfig, log2)"
    by (cases "resolve_config (ExtractAppConfig description)")
  have logs: "list_all is_log log2"
    using resolve_config_logs [of "ExtractAppConfig description"] rc by simp
  have upd: "update_ai_config db (AppName appConfig) (DisplayName appConfig) (Category appConfig)
               (ColorScheme appConfig) (GenerateProductionDomain U (AppName appConfig) appID) now appID
             = (Inl err, snd (store_call db))"
    using assms by (simp add: update_ai_config_def store_exec_fault)
  have "extractConfigAndSetupApp U ExtractAppConfig run_cmd db now appID userID description
      = (snd (store_call db),
         [Log (''[AI Setup] Starting async config extraction for app '' @ appID)] @ log2
         @ [Log (''[AI Setup] Extracted config for app '' @ appID @ '': name='' @ AppName appConfig
                 @ '', category='' @ Category appConfig @ '', color='' @ ColorScheme appConfig),
            Log (''[AI Setup] Failed to update PostgreSQL with AI config: '' @ err_text err)])"
    by (simp add: extractConfigAndSetupApp_def rc upd Let_def)
  then show ?thesis
    using logs by (simp add: rc store_call_tables store_call_faults)
qed

theorem C3_update_failure_witness:
  "fst (store_call faulty_store) = Some (ErrorNew ''connection reset'')
   \<and> extractConfigAndSetupApp id gemini_answers cmd_ok faulty_store 9 ''a1'' ''u1'' ''a shop''
      = (example_store,
         [Log ''[AI Setup] Starting async config extraction for app a1'',
          Log ''[AI Setup] Extracted config for app a1: name=Shoply, category=ecommerce, color=green'',
          Log ''[AI Setup] Failed to update PostgreSQL with AI config: connection reset''])"
proof -
  have f: "fst (store_call faulty_store) = Some (ErrorNew ''connection reset'')"
    by (simp add: store_call_def faulty_store_def)
  have s: "snd (store_call faulty_store) = example_store"
    by (simp add: store_call_def faulty_store_def example_store_def)
  from C3_update_failure_stops_setup [OF f, of id gemini_answers cmd_ok 9 "''a1''" "''u1''" "''a shop''"]
  obtain db1 effects where
    run: "extractConfigAndSetupApp id gemini_answers cmd_ok faulty_store 9 ''a1'' ''u1'' ''a shop''
            = (db1, effects)"
    and eff: "effects =
      [Log ''[AI Setup] Starting async config extraction for app a1'',
       Log ''[AI Setup] Extracted config for app a1: name=Shoply, category=ecommerce, color=green'',
       Log ''[AI Setup] Failed to update PostgreSQL with AI config: connection reset'']"
    by (auto simp add: resolve_config_def gemini_answers_def)
  have "db1 = example_store"
    using run by (simp add: extractConfigAndSetupApp_def update_ai_config_def store_exec_fault [OF f] s
        resolve_config_def gemini_answers_def Let_def)
  with f run eff show ?thesis by simp
qed

text \<open>
  Claim C3, as stated, is refuted: \<open>extractConfigAndSetupApp\<close> returns right after it logs
  the failure of the update. With a store whose next call fails, the run logs three lines
  and neither runs the registry command nor launches logo generation, both of which the
  same run does on a store that executes the update.
\<close>

theorem C3_stages_skipped_counterexample:
  "fst (store_call faulty_store) = Some (ErrorNew ''connection reset'')
   \<and> snd (extractConfigAndSetupApp id gemini_answers cmd_ok faulty_store 9 ''a1'' ''u1'' ''a shop'')
      = [Log ''[AI Setup] Starting async config extraction for app a1'',
         Log ''[AI Setup] Extracted config for app a1: name=Shoply, category=ecommerce, color=green'',
         Log ''[AI Setup] Failed to update PostgreSQL with AI config: connection reset'']
   \<and> fst (extractConfigAndSetupApp id gemini_answers cmd_ok faulty_store 9 ''a1'' ''u1'' ''a shop'')
      = example_store
   \<and> AppManager [''create'', ''a1'', ''--name'', ''Shoply'', ''--owner-email'', ''u1@example.com'']
      \<notin> set (snd (extractConfigAndSetupApp id gemini_answers cmd_ok faulty_store 9 ''a1'' ''u1'' ''a shop''))
   \<and> GoLogo ''a1'' ''Shoply'' ''ecommerce'' ''green''
      \<notin> set (snd (extractConfigAndSetupApp id gemini_answers cmd_ok faulty_store 9 ''a1'' ''u1'' ''a shop''))
   \<and> AppManager [''create'', ''a1'', ''--name'', ''Shoply'', ''--owner-email'', ''u1@example.com'']
      \<in> set (snd (extractConfigAndSetupApp id gemini_answers cmd_ok example_store 9 ''a1'' ''u1'' ''a shop''))
   \<and> GoLogo ''a1'' ''Shoply'' ''ecommerce'' ''green''
      \<in> set (snd (extractConfigAndSetupApp id gemini_answers cmd_ok example_store 9 ''a1'' ''u1'' ''a shop''))"
  by code_simp


lemma GenerateProductionDomain_not_empty: "GenerateProductionDomain U appName appID \<noteq> []"
  by (simp add: GenerateProductionDomain_def Let_def)

lemma find_append_fresh:
  "find P xs = None \<Longrightarrow> P x \<Longrightarrow> find P (xs @ [x]) = Some x"
  by (induction xs) (simp_all split: if_splits)

lemma find_set_ai_config:
  "find (\<lambda>a. a_ID a = i) (set_ai_config i name display category color url now as)
     = map_option (\<lambda>a. a\<lparr> a_Name := name, a_DisplayName := Some display,
                            a_Category := Some category, a_ColorScheme := Some color,
                            a_ProductionURL := Some url, a_UpdatedAt := now \<rparr>)
         (find (\<lambda>a. a_ID a = i) as)"
  by (induction as) (simp_all add: set_ai_config_def)

lemma CreateApp_ok:
  assumes "fst (store_call db) = None"
  shows "CreateApp U db uuid now1 now2 userID req
     = (Inr \<lparr> a_ID = uuid, a_UserID = userID, a_Name = ''MyApp'',
               a_DisplayName = Some ''My App'', a_Description = Description req,
               a_Category = Some ''other'', a_ColorScheme = Some ''blue'',
               a_Logo = None, a_Status = ''building'', a_ProdVersion = None,
               a_ProductionURL = Some (GenerateProductionDomain U ''MyApp'' uuid),
               a_VercelProjectID = None, a_CreatedAt = now1, a_UpdatedAt = now2 \<rparr>,
        (snd (store_call db))\<lparr>apps := apps (snd (store_call db)) @
            [\<lparr> a_ID = uuid, a_UserID = userID, a_Name = ''MyApp'',
               a_DisplayName = Some ''My App'', a_Description = Description req,
               a_Category = Some ''other'', a_ColorScheme = Some ''blue'',
               a_Logo = None, a_Status = ''building'', a_ProdVersion = None,
               a_ProductionURL = Some (GenerateProductionDomain U ''MyApp'' uuid),
               a_VercelProjectID = None, a_CreatedAt = now1, a_UpdatedAt = now2 \<rparr>]\<rparr>,
        Some (uuid, userID, Description req))"
  using assms by (simp add: CreateApp_def insert_app_def store_exec_ok Let_def)

lemma CreateApp_then_setup_result:
  "fst (CreateApp_then_setup U ExtractAppConfig run_cmd db uuid now1 now2 now3 userID req)
     = fst (CreateApp U db uuid now1 now2 userID req)"
  by (simp add: CreateApp_then_setup_def split: prod.splits option.splits)

lemma setup_defaults_healthy:
  assumes "faults db = []" and "ExtractAppConfig description = Inl err"
  shows "\<exists>effects email.
           extractConfigAndSetupApp U ExtractAppConfig run_cmd db now appID userID description
             = (db\<lparr>apps := set_ai_config appID ''MyApp'' ''My App'' ''other'' ''blue''
                               (GenerateProductionDomain U ''MyApp'' appID) now (apps db)\<rparr>,
                effects)
         \<and> AppManager [''create'', appID, ''--name'', ''MyApp'', ''--owner-email'', email] \<in> set effects
         \<and> GoLogo appID ''MyApp'' ''other'' ''blue'' \<in> set effects
         \<and> last effects = Log (''[AI Setup] Completed async setup for app '' @ appID)"
proof -
  define db2 where "db2 = db\<lparr>apps := set_ai_config appID ''MyApp'' ''My App'' ''other'' ''blue''
                               (GenerateProductionDomain U ''MyApp'' appID) now (apps db)\<rparr>"
  have f2: "faults db2 = []"
    using assms(1) by (simp add: db2_def)
  have rc: "resolve_config (ExtractAppConfig description)
      = (default_config,
         [Log (''[AI Setup] Warning: Failed to extract config with Gemini, using defaults: ''
               @ err_text err)])"
    using assms(2) by (simp add: resolve_config_def)
  have upd: "update_ai_config db ''MyApp'' ''My App'' ''other'' ''blue''
               (GenerateProductionDomain U ''MyApp'' appID) now appID = (Inr (), db2)"
    using assms(1) by (simp add: update_ai_config_def store_exec_healthy db2_def)
  have "snd (GetOwnerEmail db2 userID) = db2"
    using f2 by (simp add: GetOwnerEmail_def select_email_def store_exec_healthy
        split: option.splits)
  then obtain owner where owner: "GetOwnerEmail db2 userID = (owner, db2)"
    by (cases "GetOwnerEmail db2 userID") simp
  show ?thesis
    using upd owner
    by (cases owner; cases "run_cmd [''create'', appID, ''--name'', ''MyApp'', ''--owner-email'',
                                       (case owner of Inl e \<Rightarrow> ''unknown@example.com'' | Inr m \<Rightarrow> m)]";
        cases "fst (run_cmd [''create'', appID, ''--name'', ''MyApp'', ''--owner-email'',
                                       (case owner of Inl e \<Rightarrow> ''unknown@example.com'' | Inr m \<Rightarrow> m)])")
       (auto simp add: extractConfigAndSetupApp_def rc default_config_def Let_def db2_def)
qed

text \<open>
  Claim C5. Config-extraction failure is never fatal to application creation. What
  \<open>CreateApp\<close> returns does not depend on the extraction, which runs after it. When the
  store executes the insert, \<open>CreateApp\<close> returns a record with the placeholder fields (name
  \<open>MyApp\<close>, display name \<open>My App\<close>, category \<open>other\<close>, color \<open>blue\<close>, a non-empty production
  hostname) and status \<open>building\<close>, and launches the setup; the record is the same whatever
  the extraction returns afterwards. On an extraction error the setup goes on with the fixed
  default configuration (brand \<open>MyApp\<close>, display \<open>My App\<close>, auth required, signup allowed,
  category \<open>other\<close>, keywords \<open>app\<close>, color \<open>blue\<close>): on a store that executes every
  statement it runs to its end, the stored record keeps the name \<open>MyApp\<close>, the registry
  command and the logo generation get the name \<open>MyApp\<close>.
\<close>

theorem C5_extraction_failure_not_fatal:
  "fst (CreateApp_then_setup U ExtractAppConfig run_cmd db uuid now1 now2 now3 userID req)
     = fst (CreateApp U db uuid now1 now2 userID req)
   \<and> (fst (store_call db) = None \<longrightarrow>
      (\<exists>app db1.
          CreateApp U db uuid now1 now2 userID req = (Inr app, db1, Some (uuid, userID, Description req))
        \<and> fst (CreateApp_then_setup U ExtractAppConfig run_cmd db uuid now1 now2 now3 userID req)
            = Inr app
        \<and> a_ID app = uuid \<and> a_Name app = ''MyApp'' \<and> a_DisplayName app = Some ''My App''
        \<and> a_Category app = Some ''other'' \<and> a_ColorScheme app = Some ''blue''
        \<and> a_Status app = ''building''
        \<and> a_ProductionURL app = Some (GenerateProductionDomain U ''MyApp'' uuid)
        \<and> GenerateProductionDomain U ''MyApp'' uuid \<noteq> []))
   \<and> (ExtractAppConfig description = Inl err \<longrightarrow>
        fst (resolve_config (ExtractAppConfig description))
          = \<lparr> AppName = ''MyApp'', DisplayName = ''My App'', RequiresAuth = True,
               AllowSignup = True, Category = ''other'', Keywords = [''app''],
               ColorScheme = ''blue'' \<rparr>)
   \<and> (faults db = [] \<and> app_row db uuid = None \<and> ExtractAppConfig (Description req) = Inl err \<longrightarrow>
      (\<exists>app db2 effects email.
          CreateApp_then_setup U ExtractAppConfig run_cmd db uuid now1 now2 now3 userID req
            = (Inr app, db2, effects)
        \<and> app_row db2 uuid = Some (app\<lparr>a_UpdatedAt := now3\<rparr>)
        \<and> a_Name app = ''MyApp''
        \<and> AppManager [''create'', uuid, ''--name'', ''MyApp'', ''--owner-email'', email] \<in> set effects
        \<and> GoLogo uuid ''MyApp'' ''other'' ''blue'' \<in> set effects
        \<and> last effects = Log (''[AI Setup] Completed async setup for app '' @ uuid)))"
proof (intro conjI impI)
  show "fst (CreateApp_then_setup U ExtractAppConfig run_cmd db uuid now1 now2 now3 userID req)
     = fst (CreateApp U db uuid now1 now2 userID req)"
    by (rule CreateApp_then_setup_result)
next
  assume ok: "fst (store_call db) = None"
  show "\<exists>app db1.
          CreateApp U db uuid now1 now2 userID req = (Inr app, db1, Some (uuid, userID, Description req))
        \<and> fst (CreateApp_then_setup U ExtractAppConfig run_cmd db uuid now1 now2 now3 userID req)
            = Inr app
        \<and> a_ID app = uuid \<and> a_Name app = ''MyApp'' \<and> a_DisplayName app = Some ''My App''
        \<and> a_Category app = Some ''other'' \<and> a_ColorScheme app = Some ''blue''
        \<and> a_Status app = ''building''
        \<and> a_ProductionURL app = Some (GenerateProductionDomain U ''MyApp'' uuid)
        \<and> GenerateProductionDomain U ''MyApp'' uuid \<noteq> []"
    by (simp add: CreateApp_then_setup_result CreateApp_ok [OF ok] GenerateProductionDomain_not_empty)
next
  assume "ExtractAppConfig description = Inl err"
  then show "fst (resolve_config (ExtractAppConfig description))
          = \<lparr> AppName = ''MyApp'', DisplayName = ''My App'', RequiresAuth = True,
               AllowSignup = True, Category = ''other'', Keywords = [''app''],
               ColorScheme = ''blue'' \<rparr>"
    by (simp add: resolve_config_def default_config_def)
next
  assume a: "faults db = [] \<and> app_row db uuid = None \<and> ExtractAppConfig (Description req) = Inl err"
  define app where "app = \<lparr> a_ID = uuid, a_UserID = userID, a_Name = ''MyApp'',
               a_DisplayName = Some ''My App'', a_Description = Description req,
               a_Category = Some ''other'', a_ColorScheme = Some ''blue'',
               a_Logo = None, a_Status = ''building'', a_ProdVersion = None,
               a_ProductionURL = Some (GenerateProductionDomain U ''MyApp'' uuid),
               a_VercelProjectID = None, a_CreatedAt = now1, a_UpdatedAt = now2 \<rparr>"
  define db1 where "db1 = db\<lparr>apps := apps db @ [app]\<rparr>"
  have created: "CreateApp U db uuid now1 now2 userID req
      = (Inr app, db1, Some (uuid, userID, Description req))"
    using a CreateApp_ok [of db U uuid now1 now2 userID req]
    by (simp add: store_call_healthy app_def db1_def)
  have f1: "faults db1 = []"
    using a by (simp add: db1_def)
  from setup_defaults_healthy [OF f1, of ExtractAppConfig "Description req" err U run_cmd now3 uuid userID] a
  obtain effects email where
    run: "extractConfigAndSetupApp U ExtractAppConfig run_cmd db1 now3 uuid userID (Description req)
        = (db1\<lparr>apps := set_ai_config uuid ''MyApp'' ''My App'' ''other'' ''blue''
                          (GenerateProductionDomain U ''MyApp'' uuid) now3 (apps db1)\<rparr>,
           effects)"
    and eff: "AppManager [''create'', uuid, ''--name'', ''MyApp'', ''--owner-email'', email] \<in> set effects"
      "GoLogo uuid ''MyApp'' ''other'' ''blue'' \<in> set effects"
      "last effects = Log (''[AI Setup] Completed async setup for app '' @ uuid)"
    by auto
  define db2 where "db2 = db1\<lparr>apps := set_ai_config uuid ''MyApp'' ''My App'' ''other'' ''blue''
                          (GenerateProductionDomain U ''MyApp'' uuid) now3 (apps db1)\<rparr>"
  have both: "CreateApp_then_setup U ExtractAppConfig run_cmd db uuid now1 now2 now3 userID req
      = (Inr app, db2, effects)"
    by (simp add: CreateApp_then_setup_def created run db2_def)
  have "find (\<lambda>a. a_ID a = uuid) (apps db1) = Some app"
    using a by (simp add: db1_def app_row_def find_append_fresh app_def)
  then have row: "app_row db2 uuid = Some (app\<lparr>a_UpdatedAt := now3\<rparr>)"
    by (simp add: db2_def app_row_def find_set_ai_config app_def)
  have "a_Name app = ''MyApp''"
    by (simp add: app_def)
  with both row eff
  show "\<exists>app db2 effects email.
          CreateApp_then_setup U ExtractAppConfig run_cmd db uuid now1 now2 now3 userID req
            = (Inr app, db2, effects)
        \<and> app_row db2 uuid = Some (app\<lparr>a_UpdatedAt := now3\<rparr>)
        \<and> a_Name app = ''MyApp''
        \<and> AppManager [''create'', uuid, ''--name'', ''MyApp'', ''--owner-email'', email] \<in> set effects
        \<and> GoLogo uuid ''MyApp'' ''other'' ''blue'' \<in> set effects
        \<and> last effects = Log (''[AI Setup] Completed async setup for app '' @ uuid)"
    by blast
qed


theorem C5_extraction_failure_witness:
  "fst (store_call example_store) = None
   \<and> faults example_store = []
   \<and> app_row example_store example_uuid = None
   \<and> gemini_fails (Description example_request) = Inl (ErrorNew ''Gemini API error (status 500): '')
   \<and> fst (CreateApp_then_setup id gemini_fails cmd_ok example_store example_uuid 1 2 3 ''u1''
             example_request) = Inr created_app
   \<and> a_Name created_app = ''MyApp'' \<and> a_Status created_app = ''building''
   \<and> a_ProductionURL created_app = Some ''myapp-401623.rapidbuild.app''
   \<and> app_row (fst (snd (CreateApp_then_setup id gemini_fails cmd_ok example_store example_uuid
                              1 2 3 ''u1'' example_request))) example_uuid
        = Some (created_app\<lparr>a_UpdatedAt := 3\<rparr>)
   \<and> last (snd (snd (CreateApp_then_setup id gemini_fails cmd_ok example_store example_uuid
                              1 2 3 ''u1'' example_request)))
        = Log (''[AI Setup] Completed async setup for app '' @ example_uuid)"
proof -
  have h1: "fst (store_call example_store) = None" and h2: "faults example_store = []"
    by (simp_all add: store_call_def example_store_def)
  have h3: "app_row example_store example_uuid = None"
    by (simp add: app_row_def example_store_def example_app_def example_uuid_def)
  have h4: "gemini_fails (Description example_request) = Inl (ErrorNew ''Gemini API error (status 500): '')"
    by (simp add: gemini_fails_def)
  have ev: "fst (CreateApp_then_setup id gemini_fails cmd_ok example_store example_uuid 1 2 3 ''u1''
             example_request) = Inr created_app"
    by code_simp
  have fields: "a_Name created_app = ''MyApp''" "a_Status created_app = ''building''"
      "a_ProductionURL created_app = Some ''myapp-401623.rapidbuild.app''"
    by (simp_all add: created_app_def)
  from C5_extraction_failure_not_fatal [where db = example_store and U = id and uuid = example_uuid
      and ?now1.0 = 1 and ?now2.0 = 2 and ?now3.0 = 3 and userID = "''u1''" and req = example_request
      and ExtractAppConfig = gemini_fails and run_cmd = cmd_ok
      and description = "Description example_request"
      and err = "ErrorNew ''Gemini API error (status 500): ''"] h2 h3 h4
  obtain app db2 effects where
    run: "CreateApp_then_setup id gemini_fails cmd_ok example_store example_uuid 1 2 3 ''u1''
            example_request = (Inr app, db2, effects)"
    and row: "app_row db2 example_uuid = Some (app\<lparr>a_UpdatedAt := 3\<rparr>)"
    and fin: "last effects = Log (''[AI Setup] Completed async setup for app '' @ example_uuid)"
    by blast
  have "app = created_app"
    using run ev by simp
  with h1 h2 h3 h4 ev fields run row fin show ?thesis
    by simp
qed

section \<open>Version numbers\<close>

lemma go_int_in_range: "- (2 ^ 63) \<le> n \<Longrightarrow> n < 2 ^ 63 \<Longrightarrow> go_int n = n"
  by (simp add: go_int_def)

lemma headroom_less: "headroom (Suc k) n \<Longrightarrow> headroom k n"
  by (simp add: headroom_def)

lemma list_all_headroom_less: "list_all (headroom (Suc k)) ns \<Longrightarrow> list_all (headroom k) ns"
  by (induction ns) (simp_all add: headroom_less)

lemma numbers_of_append:
  "numbers_of (vs @ [v]) a
     = (if v_AppID v = a then numbers_of vs a @ [v_VersionNumber v] else numbers_of vs a)"
  by (simp add: numbers_of_def)

lemma numbers_of_filter:
  "numbers_of (filter P vs) a = map v_VersionNumber (filter P (filter (\<lambda>v. v_AppID v = a) vs))"
  by (induction vs) (simp_all add: numbers_of_def)

lemma sorted_numbers_of_filter:
  assumes "sorted_wrt (<) (numbers_of vs a)"
  shows "sorted_wrt (<) (numbers_of (filter P vs) a)"
proof -
  have "sorted_wrt (\<lambda>x y. v_VersionNumber x < v_VersionNumber y) (filter (\<lambda>v. v_AppID v = a) vs)"
    using assms by (simp add: numbers_of_def sorted_wrt_map)
  then have "sorted_wrt (\<lambda>x y. v_VersionNumber x < v_VersionNumber y)
      (filter P (filter (\<lambda>v. v_AppID v = a) vs))"
    by (rule sorted_wrt_filter)
  then show ?thesis
    by (simp only: numbers_of_filter sorted_wrt_map)
qed

lemma set_numbers_of_filter: "set (numbers_of (filter P vs) a) \<subseteq> set (numbers_of vs a)"
  by (auto simp add: numbers_of_def)

lemma max_version_number_mem: "max_version_number vs a \<in> set (0 # numbers_of vs a)"
proof (cases "numbers_of vs a")
  case Nil
  then show ?thesis by (simp add: max_version_number_def)
next
  case (Cons n ns)
  have "Max (set (n # ns)) \<in> set (n # ns)"
    by (rule Max_in) simp_all
  with Cons show ?thesis by (simp add: max_version_number_def)
qed

lemma max_version_number_ge: "n \<in> set (numbers_of vs a) \<Longrightarrow> n \<le> max_version_number vs a"
proof (cases "numbers_of vs a")
  case Nil
  assume "n \<in> set (numbers_of vs a)"
  with Nil show ?thesis by simp
next
  case (Cons m ms)
  assume "n \<in> set (numbers_of vs a)"
  with Cons have "n \<le> Max (set (m # ms))"
    by (intro Max_ge) simp_all
  with Cons show ?thesis by (simp add: max_version_number_def)
qed

lemma max_version_number_eq:
  "max_version_number vs a = (if numbers_of vs a = [] then 0 else Max (set (numbers_of vs a)))"
  by (cases "numbers_of vs a") (simp_all add: max_version_number_def)

text \<open>What \<open>CreateVersion\<close> does to the table: nothing, or one new last row.\<close>

lemma CreateVersion_cases:
  "(\<exists>err. fst (CreateVersion db uuid now appID) = Inl err
         \<and> versions (snd (CreateVersion db uuid now appID)) = versions db)
   \<or> (\<exists>v. fst (CreateVersion db uuid now appID) = Inr v
         \<and> versions (snd (CreateVersion db uuid now appID)) = versions db @ [v]
         \<and> v_AppID v = appID
         \<and> v_VersionNumber v = go_int (max_version_number (versions db) appID + 1))"
proof (cases "store_call db")
  case (Pair f db1)
  then have v1: "versions db1 = versions db"
    using store_call_tables(2) [of db] by simp
  show ?thesis
  proof (cases f)
    case (Some err)
    with Pair v1 show ?thesis
      by (simp add: CreateVersion_def select_max_version_number_def store_exec_def)
  next
    case None
    show ?thesis
    proof (cases "store_call db1")
      case inner: (Pair g db2)
      then have v2: "versions db2 = versions db"
        using store_call_tables(2) [of db1] v1 by simp
      from Pair None inner v1 v2 show ?thesis
        by (cases g)
           (simp_all add: CreateVersion_def select_max_version_number_def insert_version_def
              store_exec_def Let_def)
    qed
  qed
qed

lemma DeleteVersion_cases:
  "versions (snd (DeleteVersion db versionID)) = versions db
   \<or> versions (snd (DeleteVersion db versionID)) = filter (\<lambda>v. v_ID v \<noteq> versionID) (versions db)"
proof (cases "store_call db")
  case (Pair f db1)
  then have "versions db1 = versions db"
    using store_call_tables(2) [of db] by simp
  with Pair show ?thesis
    by (cases f) (simp_all add: DeleteVersion_def delete_version_def store_exec_def Let_def)
qed

lemma well_numbered_less: "well_numbered (Suc k) vs a \<Longrightarrow> well_numbered k vs a"
  by (simp add: well_numbered_def headroom_less list_all_headroom_less)

lemma well_numbered_filter:
  assumes "well_numbered k vs a"
  shows "well_numbered k (filter P vs) a"
proof -
  have "list_all (headroom k) (numbers_of (filter P vs) a)"
    using assms set_numbers_of_filter [of P vs a]
    by (auto simp add: well_numbered_def list_all_iff)
  with assms show ?thesis
    by (simp add: well_numbered_def sorted_numbers_of_filter)
qed

lemma well_numbered_create:
  assumes "well_numbered (Suc k) vs a"
    and "v_VersionNumber v = go_int (max_version_number vs appID + 1)" and "v_AppID v = appID"
  shows "well_numbered k (vs @ [v]) a
         \<and> (appID = a \<longrightarrow> v_VersionNumber v = max_version_number vs a + 1)"
proof (cases "appID = a")
  case False
  with assms show ?thesis
    by (simp add: well_numbered_def numbers_of_append headroom_less list_all_headroom_less)
next
  case True
  define m where "m = max_version_number vs a"
  have "headroom (Suc k) m"
    using assms(1) max_version_number_mem [of vs a]
    by (simp add: well_numbered_def list_all_iff m_def del: set_simps)
  then have lo: "- (2 ^ 63) \<le> m" and hi: "m + int k + 1 < 2 ^ 63"
    by (simp_all add: headroom_def)
  have num: "v_VersionNumber v = m + 1"
    using assms(2) True lo hi by (simp add: m_def go_int_in_range)
  have above: "\<forall>n \<in> set (numbers_of vs a). n < m + 1"
    using max_version_number_ge [of _ vs a] by (fastforce simp add: m_def)
  have "headroom k (m + 1)"
    using lo hi by (simp add: headroom_def)
  with assms(1,3) True num above show ?thesis
    by (simp add: well_numbered_def numbers_of_append sorted_wrt_append headroom_less
        list_all_headroom_less m_def)
qed

lemma well_numbered_apply_op:
  assumes "well_numbered (Suc k) (versions db) a"
  shows "well_numbered k (versions (apply_op db op)) a"
proof (cases op)
  case (OpCreateVersion uuid now appID)
  from CreateVersion_cases [of db uuid now appID] show ?thesis
  proof
    assume "\<exists>err. fst (CreateVersion db uuid now appID) = Inl err
         \<and> versions (snd (CreateVersion db uuid now appID)) = versions db"
    with assms OpCreateVersion show ?thesis
      by (auto simp add: well_numbered_less)
  next
    assume "\<exists>v. fst (CreateVersion db uuid now appID) = Inr v
         \<and> versions (snd (CreateVersion db uuid now appID)) = versions db @ [v]
         \<and> v_AppID v = appID
         \<and> v_VersionNumber v = go_int (max_version_number (versions db) appID + 1)"
    then obtain v where "versions (snd (CreateVersion db uuid now appID)) = versions db @ [v]"
        "v_AppID v = appID"
        "v_VersionNumber v = go_int (max_version_number (versions db) appID + 1)"
      by blast
    with assms OpCreateVersion well_numbered_create [of k "versions db" a v appID]
    show ?thesis by simp
  qed
next
  case (OpDeleteVersion versionID)
  from DeleteVersion_cases [of db versionID] assms OpDeleteVersion show ?thesis
    by (auto simp add: well_numbered_less well_numbered_filter)
qed

lemma well_numbered_run_ops:
  "well_numbered (length ops + k) (versions db) a \<Longrightarrow> well_numbered k (versions (run_ops db ops)) a"
proof (induction ops arbitrary: db)
  case Nil
  then show ?case by simp
next
  case (Cons op ops)
  then have "well_numbered (Suc (length ops + k)) (versions db) a"
    by simp
  then have "well_numbered (length ops + k) (versions (apply_op db op)) a"
    by (rule well_numbered_apply_op)
  then show ?case
    using Cons.IH by simp
qed

lemma sorted_wrt_less_distinct: "sorted_wrt (<) (ns :: int list) \<Longrightarrow> distinct ns"
  by (induction ns) auto


text \<open>
  Claim C2, amended. For every application, across any sequence of \<open>CreateVersion\<close> and
  \<open>DeleteVersion\<close> operations (numbers within the range of a Go \<open>int\<close>), the version numbers
  of its existing versions are pairwise distinct and strictly increasing in creation order,
  and a creation assigns the maximum of the existing numbers plus one, 1 when none exist:
  a number greater than that of every existing version of the application. A number is
  therefore not assigned again while a version with that or a greater number exists; the
  claim that a number is never reused after deletions is dropped.
\<close>

theorem C2_version_numbers:
  assumes "sorted_wrt (<) (numbers_of (versions db) a)"
    and "list_all (headroom (Suc (length ops))) (0 # numbers_of (versions db) a)"
  shows "sorted_wrt (<) (numbers_of (versions (run_ops db ops)) a)
       \<and> distinct (numbers_of (versions (run_ops db ops)) a)
       \<and> (\<forall>uuid now v db'. CreateVersion (run_ops db ops) uuid now a = (Inr v, db') \<longrightarrow>
             v_VersionNumber v
               = (if numbers_of (versions (run_ops db ops)) a = [] then 1
                  else Max (set (numbers_of (versions (run_ops db ops)) a)) + 1)
           \<and> list_all (\<lambda>n. n < v_VersionNumber v) (numbers_of (versions (run_ops db ops)) a)
           \<and> numbers_of (versions db') a
               = numbers_of (versions (run_ops db ops)) a @ [v_VersionNumber v])"
proof -
  define db1 where "db1 = run_ops db ops"
  have "well_numbered (length ops + 1) (versions db) a"
    using assms by (simp add: well_numbered_def)
  then have wn: "well_numbered 1 (versions db1) a"
    unfolding db1_def by (rule well_numbered_run_ops)
  then have sorted: "sorted_wrt (<) (numbers_of (versions db1) a)"
    by (simp add: well_numbered_def)
  then have dist: "distinct (numbers_of (versions db1) a)"
    by (rule sorted_wrt_less_distinct)
  have create: "v_VersionNumber v
               = (if numbers_of (versions db1) a = [] then 1
                  else Max (set (numbers_of (versions db1) a)) + 1)
           \<and> list_all (\<lambda>n. n < v_VersionNumber v) (numbers_of (versions db1) a)
           \<and> numbers_of (versions db') a = numbers_of (versions db1) a @ [v_VersionNumber v]"
    if c: "CreateVersion db1 uuid now a = (Inr v, db')" for uuid now v db'
  proof -
    from CreateVersion_cases [of db1 uuid now a] c
    have v: "versions db' = versions db1 @ [v]" "v_AppID v = a"
        "v_VersionNumber v = go_int (max_version_number (versions db1) a + 1)"
      by auto
    from well_numbered_create [of 0 "versions db1" a v a] wn v
    have num: "v_VersionNumber v = max_version_number (versions db1) a + 1"
      by simp
    have "\<forall>n \<in> set (numbers_of (versions db1) a). n < v_VersionNumber v"
      using max_version_number_ge [of _ "versions db1" a] num by fastforce
    then have above: "list_all (\<lambda>n. n < v_VersionNumber v) (numbers_of (versions db1) a)"
      by (simp add: list_all_iff)
    from num above v show ?thesis
      by (simp add: max_version_number_eq numbers_of_append)
  qed
  from sorted dist create show ?thesis
    unfolding db1_def by blast
qed

theorem C2_version_numbers_witness:
  "sorted_wrt (<) (numbers_of (versions empty_store) ''a1'')
   \<and> list_all (headroom (Suc (length reuse_ops))) (0 # numbers_of (versions empty_store) ''a1'')
   \<and> numbers_of (versions (run_ops empty_store reuse_ops)) ''a1'' = [1, 2]
   \<and> sorted_wrt (<) (numbers_of (versions (run_ops empty_store reuse_ops)) ''a1'')
   \<and> distinct (numbers_of (versions (run_ops empty_store reuse_ops)) ''a1'')"
proof -
  have h1: "sorted_wrt (<) (numbers_of (versions empty_store) ''a1'')"
    by (simp add: empty_store_def numbers_of_def)
  have h2: "list_all (headroom (Suc (length reuse_ops))) (0 # numbers_of (versions empty_store) ''a1'')"
    by (simp add: empty_store_def numbers_of_def headroom_def reuse_ops_def two_creates_def)
  have ev: "numbers_of (versions (run_ops empty_store reuse_ops)) ''a1'' = [1, 2]"
    by code_simp
  from C2_version_numbers [OF h1 h2] h1 h2 ev show ?thesis
    by simp
qed

text \<open>
  Claim C2, as stated, is refuted: a version number is reused. Two creations give \<open>v1\<close> and
  \<open>v2\<close> the numbers 1 and 2; after \<open>v2\<close> is deleted the maximum of the existing numbers is
  1 again, and the next creation gives \<open>v3\<close> the number 2 that \<open>v2\<close> had.
\<close>

theorem C2_number_reused_counterexample:
  "map v_ID (versions (run_ops empty_store two_creates)) = [''v1'', ''v2'']
   \<and> map v_VersionNumber (versions (run_ops empty_store two_creates)) = [1, 2]
   \<and> map v_ID (versions (run_ops empty_store reuse_ops)) = [''v1'', ''v3'']
   \<and> map v_VersionNumber (versions (run_ops empty_store reuse_ops)) = [1, 2]"
  by code_simp

end
